theory Spec2Isabelle
  imports Main
begin

section \<open>Values, dictionaries and strings of the Python program\<close>

text \<open>
  The records of \<^verbatim>\<open>chatbot_setup.py\<close> are what \<^verbatim>\<open>json.load\<close> produces: dictionaries
  from string keys to JSON values. A dictionary keeps its insertion order, so it is an
  association list; a well-formed dictionary has distinct keys. Numbers are integers
  here (the program never computes with a number, it only tests its truth value).
  A Python string is the list of the bytes of its UTF-8 encoding. Whitespace is all of
  Unicode's. \<^verbatim>\<open>str.lower\<close> is modelled on the letters A to Z and leaves every other byte
  as it is. That decides the quota test and the choice of the question type as the
  code does: the only characters outside ASCII whose lower-case form contains an ASCII
  letter are U+0130 (which becomes i followed by U+0307) and U+212A (which becomes k),
  and neither can complete the word \<^verbatim>\<open>quota\<close> or make a text equal to one of the
  question-type words. On keys with letters outside ASCII the key normalisation
  (\<^verbatim>\<open>lower\<close> followed by NFKC) is not modelled; the theorems below take the arguments of
  the call and the outcome of validation as given, and none depends on how such a key
  is mapped.
\<close>

datatype json =
    JNull
  | JBool bool
  | JNum int
  | JStr string
  | JList "json list"
  | JDict "(string \<times> json) list"

type_synonym dict = "(string \<times> json) list"

text \<open>Python's truth value of an object, as \<^verbatim>\<open>if x:\<close> and \<^verbatim>\<open>not x\<close> test it.\<close>

fun truthy :: "json \<Rightarrow> bool" where
  "truthy JNull = False"
| "truthy (JBool b) = b"
| "truthy (JNum n) = (n \<noteq> 0)"
| "truthy (JStr s) = (s \<noteq> [])"
| "truthy (JList xs) = (xs \<noteq> [])"
| "truthy (JDict d) = (d \<noteq> [])"

text \<open>\<^verbatim>\<open>d.get(k, default)\<close>, \<^verbatim>\<open>k in d\<close> and \<^verbatim>\<open>d[k] = v\<close> (an existing key keeps its
  position, a new key goes to the end).\<close>

definition py_get :: "(string \<times> 'v) list \<Rightarrow> string \<Rightarrow> 'v \<Rightarrow> 'v" where
  "py_get d k dflt = (case map_of d k of None \<Rightarrow> dflt | Some v \<Rightarrow> v)"

definition py_in :: "string \<Rightarrow> (string \<times> 'v) list \<Rightarrow> bool" where
  "py_in k d = (map_of d k \<noteq> None)"

fun dict_set :: "(string \<times> 'v) list \<Rightarrow> string \<Rightarrow> 'v \<Rightarrow> (string \<times> 'v) list" where
  "dict_set [] k v = [(k, v)]"
| "dict_set ((k', v') # d) k v = (if k' = k then (k, v) # d else (k', v') # dict_set d k v)"

text \<open>\<^verbatim>\<open>str.lower\<close>, \<^verbatim>\<open>str.strip\<close>, \<^verbatim>\<open>needle in haystack\<close>, \<^verbatim>\<open>str.find\<close> and
  \<^verbatim>\<open>str.rfind\<close> of a single character.\<close>

definition lower_char :: "char \<Rightarrow> char" where
  "lower_char c =
     (case map_of (zip ''ABCDEFGHIJKLMNOPQRSTUVWXYZ'' ''abcdefghijklmnopqrstuvwxyz'') c of
        None \<Rightarrow> c | Some l \<Rightarrow> l)"

definition py_lower :: "string \<Rightarrow> string" where
  "py_lower s = map lower_char s"

fun starts_with :: "string \<Rightarrow> string \<Rightarrow> bool" where
  "starts_with [] s = True"
| "starts_with (p # ps) [] = False"
| "starts_with (p # ps) (c # cs) = (p = c \<and> starts_with ps cs)"

text \<open>
  \<^verbatim>\<open>str.strip()\<close> removes from both ends the characters for which \<^verbatim>\<open>str.isspace()\<close> holds.
  These are the 29 code points below, each given by its UTF-8 encoding: U+0009 to U+000D,
  U+001C to U+001F, U+0020, U+0085, U+00A0, U+1680, U+2000 to U+200A, U+2028, U+2029,
  U+202F, U+205F and U+3000. A lead byte never occurs inside another character's
  encoding, so removing these byte sequences from the front, and their reversals from
  the reversed string, removes exactly the whitespace characters of the text.
\<close>

definition whitespace :: "string list" where
  "whitespace =
     [[CHR 0x09], [CHR 0x0A], [CHR 0x0B], [CHR 0x0C], [CHR 0x0D],
      [CHR 0x1C], [CHR 0x1D], [CHR 0x1E], [CHR 0x1F], [CHR 0x20],
      [CHR 0xC2, CHR 0x85], [CHR 0xC2, CHR 0xA0],
      [CHR 0xE1, CHR 0x9A, CHR 0x80],
      [CHR 0xE2, CHR 0x80, CHR 0x80], [CHR 0xE2, CHR 0x80, CHR 0x81],
      [CHR 0xE2, CHR 0x80, CHR 0x82], [CHR 0xE2, CHR 0x80, CHR 0x83],
      [CHR 0xE2, CHR 0x80, CHR 0x84], [CHR 0xE2, CHR 0x80, CHR 0x85],
      [CHR 0xE2, CHR 0x80, CHR 0x86], [CHR 0xE2, CHR 0x80, CHR 0x87],
      [CHR 0xE2, CHR 0x80, CHR 0x88], [CHR 0xE2, CHR 0x80, CHR 0x89],
      [CHR 0xE2, CHR 0x80, CHR 0x8A],
      [CHR 0xE2, CHR 0x80, CHR 0xA8], [CHR 0xE2, CHR 0x80, CHR 0xA9],
      [CHR 0xE2, CHR 0x80, CHR 0xAF], [CHR 0xE2, CHR 0x81, CHR 0x9F],
      [CHR 0xE3, CHR 0x80, CHR 0x80]]"

function strip_leading :: "string list \<Rightarrow> string \<Rightarrow> string" where
  "strip_leading ws s =
     (case find (\<lambda>w. w \<noteq> [] \<and> starts_with w s) ws of
        None \<Rightarrow> s
      | Some w \<Rightarrow> strip_leading ws (drop (length w) s))"
  by pat_completeness auto
termination
proof (relation "measure (\<lambda>(ws, s). length s)")
  show "wf (measure (\<lambda>(ws, s). length s))" by simp
next
  fix ws :: "string list" and s w :: string
  assume "find (\<lambda>w. w \<noteq> [] \<and> starts_with w s) ws = Some w"
  then have "w \<noteq> []" and "starts_with w s"
    by (auto simp: find_Some_iff)
  then have "s \<noteq> []"
    by (cases w; cases s) auto
  with \<open>w \<noteq> []\<close> show "((ws, drop (length w) s), (ws, s)) \<in> measure (\<lambda>(ws, s). length s)"
    by simp
qed

declare strip_leading.simps [simp del]

definition py_strip :: "string \<Rightarrow> string" where
  "py_strip s = rev (strip_leading (map rev whitespace) (rev (strip_leading whitespace s)))"

fun contains :: "string \<Rightarrow> string \<Rightarrow> bool" where
  "contains needle [] = (needle = [])"
| "contains needle (c # cs) = (starts_with needle (c # cs) \<or> contains needle cs)"

fun str_find :: "char \<Rightarrow> string \<Rightarrow> nat option" where
  "str_find c [] = None"
| "str_find c (x # xs) = (if x = c then Some 0 else map_option Suc (str_find c xs))"

definition str_rfind :: "char \<Rightarrow> string \<Rightarrow> nat option" where
  "str_rfind c s = (case str_find c (rev s) of None \<Rightarrow> None | Some i \<Rightarrow> Some (length s - 1 - i))"

section \<open>Exceptions and the outcome of a request to the model\<close>

text \<open>
  \<^verbatim>\<open>QuotaExceededException\<close> is the program's own exception and carries a message.
  \<^verbatim>\<open>AttributeError\<close> is what Python raises for \<^verbatim>\<open>x.lower()\<close> or \<^verbatim>\<open>x.get(...)\<close> on
  an object without that method, \<^verbatim>\<open>KeyError\<close> for \<^verbatim>\<open>d[k]\<close> on a missing key.

  A request \<^verbatim>\<open>client.chat.completions.create(...)\<close> either yields the text of the
  completion or raises; the exception classes the program tells apart are the
  rate-limit error and the authentication error. \<open>OtherError\<close> stands for every
  other exception raised inside the \<^verbatim>\<open>try\<close> block around the request (each carries
  \<^verbatim>\<open>str(e)\<close>). The model samples its answer, so the outcome of a request is an input
  of the functions below, not a function of the prompt.
\<close>

datatype error = QuotaExceededException string | AttributeError | KeyError string

datatype api_outcome =
    Completion string
  | RateLimitError string
  | AuthenticationError string
  | OtherError string

section \<open>Field mapper\<close>

definition KEY_MAPS_English :: "(string \<times> string) list" where
  "KEY_MAPS_English =
    [(''question'', ''Question''),
     (''discipline'', ''Discipline''),
     (''language'', ''Language''),
     (''grade'', ''Grade''),
     (''explanation'', ''Explanation''),
     (''competition_name'', ''Competition Name''),
     (''competition_year'', ''Competition Year''),
     (''question_number'', ''Question Number''),
     (''difficulty'', ''Difficulty''),
     (''question_type'', ''Question Type''),
     (''answer'', ''Answer'')]"

definition FALLBACK_KEYS :: "(string \<times> string list) list" where
  "FALLBACK_KEYS =
    [(''question'', [''Question'', ''question'']),
     (''answer'', [''Answer'', ''answer'']),
     (''question_type'', [''Question Type'', ''question type'']),
     (''language'', [''Language'', ''language'']),
     (''discipline'', [''Discipline'', ''discipline'']),
     (''grade'', [''Grade'', ''grade'']),
     (''explanation'', [''Explanation'', ''explanation'']),
     (''competition_name'', [''Competition Name'', ''competition name'']),
     (''competition_year'', [''Competition Year'', ''competition year'']),
     (''question_number'', [''Question Number'', ''question number'']),
     (''difficulty'', [''Difficulty'', ''difficulty''])]"

text \<open>\<^verbatim>\<open>unicodedata.normalize("NFKC", key.strip().lower())\<close>; NFKC leaves ASCII text as it is,
  and the keys the mapper looks up are ASCII.\<close>

definition normalize_key :: "string \<Rightarrow> string" where
  "normalize_key key = py_lower (py_strip key)"

text \<open>The dictionary comprehension \<^verbatim>\<open>{normalize_key(k): v for k, v in record.items()}\<close>.\<close>

definition normalize_record :: "dict \<Rightarrow> dict" where
  "normalize_record record = foldl (\<lambda>d (k, v). dict_set d (normalize_key k) v) [] record"

definition get_key_map_for_language :: "json \<Rightarrow> (string \<times> string) list" where
  "get_key_map_for_language language = KEY_MAPS_English"

text \<open>The inner \<^verbatim>\<open>for alt_key in ...: if ... in normalized_record: val = ...; break\<close>.\<close>

fun first_fallback :: "dict \<Rightarrow> string list \<Rightarrow> json \<Rightarrow> json" where
  "first_fallback normalized_record [] val = val"
| "first_fallback normalized_record (alt_key # alts) val =
     (if py_in (normalize_key alt_key) normalized_record
      then py_get normalized_record (normalize_key alt_key) val
      else first_fallback normalized_record alts val)"

fun map_fields_loop :: "dict \<Rightarrow> (string \<times> string) list \<Rightarrow> dict \<Rightarrow> dict" where
  "map_fields_loop normalized_record [] mapped = mapped"
| "map_fields_loop normalized_record ((eng_key, local_key) # key_map) mapped =
     (let val = py_get normalized_record (normalize_key local_key) (JStr []);
          val' = (if \<not> truthy val
                  then first_fallback normalized_record (py_get FALLBACK_KEYS eng_key []) val
                  else val)
      in map_fields_loop normalized_record key_map (dict_set mapped eng_key val'))"

definition map_record_fields :: "dict \<Rightarrow> (string \<times> string) list \<Rightarrow> dict" where
  "map_record_fields record key_map = map_fields_loop (normalize_record record) key_map []"

section \<open>Prompt builder\<close>

text \<open>
  \<^verbatim>\<open>get_system_prompt\<close> calls \<^verbatim>\<open>question_type.lower()\<close>, which only a string has. The
  result is the fixed base instruction followed by a clause chosen by the question
  type; the base text does not depend on the input and is left out of the result here.
\<close>

definition get_system_prompt :: "json \<Rightarrow> error + string" where
  \<open>get_system_prompt question_type =
     (case question_type of
        JStr s \<Rightarrow>
          (let qt = py_lower s in
           if qt \<in> set [''explanation'', ''exp'']
             then Inr '' The answer should be a detailed explanation in a conversational and clear style.''
           else if qt \<in> set [''short answer'', ''short'']
             then Inr '' The answer should be concise, precise, and natural.''
           else if qt \<in> set [''multiple choice'', ''mcq'']
             then Inr '' The answer must be one of the provided options. Verify correctness in a natural, human-like manner.''
           else if qt \<in> set [''true/false'', ''truefalse'']
             then Inr '' The answer must be either 'True' or 'False', explained in a simple, human-like way.''
           else Inr '' The answer type is unspecified; check for correctness in a conversational style.'')
      | _ \<Rightarrow> Inl AttributeError)\<close>

section \<open>Model client: validation call\<close>

definition extract_json_substring :: "string \<Rightarrow> string" where
  "extract_json_substring s =
     (case (str_find (CHR ''{'') s, str_rfind (CHR ''}'') s) of
        (Some start, Some end) \<Rightarrow>
          (if end > start then take (end + 1 - start) (drop start s) else s)
      | _ \<Rightarrow> s)"

text \<open>The dictionary \<^verbatim>\<open>{"valid": False, "reason": ..., "corrected_answer": None}\<close> of the
  three degraded paths.\<close>

definition degraded :: "string \<Rightarrow> json" where
  "degraded reason =
     JDict [(''valid'', JBool False), (''reason'', JStr reason), (''corrected_answer'', JNull)]"

definition is_quota_message :: "string \<Rightarrow> bool" where
  "is_quota_message error_msg =
     (contains ''insufficient_quota'' (py_lower error_msg) \<or> contains ''quota'' (py_lower error_msg))"

text \<open>
  \<^verbatim>\<open>json.loads\<close> and \<^verbatim>\<open>json5.loads\<close> are library functions and parameters here:
  \<open>json_loads\<close> is \<open>None\<close> where \<^verbatim>\<open>json.loads\<close> raises \<^verbatim>\<open>JSONDecodeError\<close>, and
  \<open>json5_loads\<close> is \<open>Inl\<close> of the message of the exception \<^verbatim>\<open>json5.loads\<close> raises.
  The system prompt is built before the \<^verbatim>\<open>try\<close>, so its exception is not caught.
\<close>

definition call_openai ::
  "json \<Rightarrow> json \<Rightarrow> json \<Rightarrow> api_outcome \<Rightarrow> (string \<Rightarrow> json option) \<Rightarrow> (string \<Rightarrow> string + json)
     \<Rightarrow> error + json" where
  "call_openai question answer question_type outcome json_loads json5_loads =
     (case get_system_prompt question_type of
        Inl e \<Rightarrow> Inl e
      | Inr system_prompt \<Rightarrow>
         (case outcome of
            Completion raw \<Rightarrow>
              (let json_text = extract_json_substring raw in
               case json_loads json_text of
                 Some result \<Rightarrow> Inr result
               | None \<Rightarrow>
                  (case json5_loads json_text of
                     Inr result \<Rightarrow> Inr result
                   | Inl msg \<Rightarrow> Inr (degraded (''OpenAI API error: '' @ msg))))
          | RateLimitError error_msg \<Rightarrow>
              (if is_quota_message error_msg
               then Inl (QuotaExceededException (''OpenAI API quota exceeded: '' @ error_msg))
               else Inr (degraded (''Rate limit error: '' @ error_msg)))
          | AuthenticationError msg \<Rightarrow> Inr (degraded (''Authentication error: '' @ msg))
          | OtherError msg \<Rightarrow> Inr (degraded (''OpenAI API error: '' @ msg))))"

section \<open>Validator\<close>

text \<open>Lines 156 to 167 of \<^verbatim>\<open>validate_record\<close>: the detected language (never used by
  the key map) and the three arguments of the call.\<close>

definition detect_language :: "dict \<Rightarrow> json" where
  "detect_language record =
     first_fallback (normalize_record record) (py_get FALLBACK_KEYS ''language'' []) (JStr ''English'')"

definition call_arguments :: "dict \<Rightarrow> json \<times> json \<times> json" where
  "call_arguments record =
     (let key_map = get_key_map_for_language (detect_language record);
          mapped = map_record_fields record key_map
      in (py_get mapped ''question'' (JStr []),
          py_get mapped ''answer'' (JStr []),
          py_get mapped ''question_type'' (JStr ''unspecified'')))"

definition key_of :: "(string \<times> string) list \<Rightarrow> string \<Rightarrow> error + string" where
  "key_of key_map k = (case map_of key_map k of None \<Rightarrow> Inl (KeyError k) | Some v \<Rightarrow> Inr v)"

text \<open>The two \<^verbatim>\<open>if\<close> statements of the branch for an answer that is not valid.\<close>

definition correct_answer :: "(string \<times> string) list \<Rightarrow> dict \<Rightarrow> dict \<Rightarrow> error + dict" where
  "correct_answer key_map result new_rec =
     (if truthy (py_get result ''corrected_answer'' JNull)
      then (case key_of key_map ''answer'' of
              Inl e \<Rightarrow> Inl e
            | Inr answer_key \<Rightarrow>
                Inr (dict_set (dict_set new_rec answer_key (py_get result ''corrected_answer'' JNull))
                       ''explanation_status'' (JStr ''Answer corrected by AI.'')))
      else Inr new_rec)"

definition correct_explanation :: "(string \<times> string) list \<Rightarrow> dict \<Rightarrow> dict \<Rightarrow> error + dict" where
  "correct_explanation key_map result new_rec =
     (if truthy (py_get result ''corrected_explanation'' JNull)
      then (case key_of key_map ''explanation'' of
              Inl e \<Rightarrow> Inl e
            | Inr explanation_key \<Rightarrow>
                Inr (dict_set new_rec explanation_key (py_get result ''corrected_explanation'' JNull)))
      else Inr (dict_set new_rec ''explanation_status'' (JStr ''Explanation is already correct.'')))"

text \<open>Lines 171 to 187: what \<^verbatim>\<open>validate_record\<close> does with the value \<^verbatim>\<open>call_openai\<close>
  returned. \<^verbatim>\<open>result.get\<close> exists only when the value is a dictionary.\<close>

definition apply_result :: "(string \<times> string) list \<Rightarrow> dict \<Rightarrow> json \<Rightarrow> error + dict" where
  "apply_result key_map record res =
     (case res of
        JDict result \<Rightarrow>
          (if truthy (py_get result ''valid'' (JBool False))
           then Inr (dict_set
                      (dict_set record ''_validation''
                         (JDict [(''valid'', JBool True), (''reason'', py_get result ''reason'' JNull)]))
                      ''explanation_status'' (JStr ''Answer is correct.''))
           else (case correct_answer key_map result record of
                   Inl e \<Rightarrow> Inl e
                 | Inr rec1 \<Rightarrow>
                    (case correct_explanation key_map result rec1 of
                       Inl e \<Rightarrow> Inl e
                     | Inr rec2 \<Rightarrow>
                         Inr (dict_set rec2 ''_validation''
                                (JDict [(''valid'', JBool False),
                                        (''reason'', py_get result ''reason'' JNull),
                                        (''corrected'', JBool True)])))))
      | _ \<Rightarrow> Inl AttributeError)"

definition validate_record ::
  "dict \<Rightarrow> api_outcome \<Rightarrow> (string \<Rightarrow> json option) \<Rightarrow> (string \<Rightarrow> string + json) \<Rightarrow> error + dict" where
  "validate_record record outcome json_loads json5_loads =
     (case call_arguments record of
        (question, answer, question_type) \<Rightarrow>
          (case call_openai question answer question_type outcome json_loads json5_loads of
             Inl e \<Rightarrow> Inl e
           | Inr res \<Rightarrow>
               apply_result (get_key_map_for_language (detect_language record)) record res))"

section \<open>Translator\<close>

text \<open>
  \<^verbatim>\<open>gpt_translate_text\<close> sends one request per translated value, one after the other.
  \<open>api n\<close> is the outcome of the \<open>n\<close>-th request of the run; the state counts the
  requests made and the time spent in \<^verbatim>\<open>time.sleep\<close>. The \<^verbatim>\<open>print\<close> calls are
  diagnostics and are not modelled. An exception leaves the function with nothing but
  the exception: the dictionary under construction is a local variable.
\<close>

record tstate =
  calls :: nat
  slept :: nat

text \<open>Lines 205 to 229: the request for the \<^verbatim>\<open>reason\<close> of \<^verbatim>\<open>_validation\<close>. Its handlers
  are \<^verbatim>\<open>except openai.RateLimitError\<close> and \<^verbatim>\<open>except Exception\<close> only.\<close>

definition translate_reason :: "(nat \<Rightarrow> api_outcome) \<Rightarrow> string \<Rightarrow> tstate \<Rightarrow> error + (json \<times> tstate)" where
  "translate_reason api val_value st =
     (let st' = st\<lparr>calls := calls st + 1\<rparr> in
      case api (calls st) of
        Completion content \<Rightarrow> Inr (JStr (py_strip content), st')
      | RateLimitError error_msg \<Rightarrow>
          (if is_quota_message error_msg
           then Inl (QuotaExceededException (''Translation quota exceeded: '' @ error_msg))
           else Inr (JStr val_value, st'))
      | AuthenticationError msg \<Rightarrow> Inr (JStr val_value, st')
      | OtherError msg \<Rightarrow> Inr (JStr val_value, st'))"

text \<open>Lines 246 to 275: the request for a top-level string value.\<close>

definition translate_text :: "(nat \<Rightarrow> api_outcome) \<Rightarrow> string \<Rightarrow> tstate \<Rightarrow> error + (json \<times> tstate)" where
  "translate_text api val st =
     (let st' = st\<lparr>calls := calls st + 1\<rparr> in
      case api (calls st) of
        Completion content \<Rightarrow> Inr (JStr (py_strip content), st')
      | RateLimitError error_msg \<Rightarrow>
          (if is_quota_message error_msg
           then Inl (QuotaExceededException (''Translation quota exceeded: '' @ error_msg))
           else Inr (JStr val, st'\<lparr>slept := slept st' + 60\<rparr>))
      | AuthenticationError msg \<Rightarrow>
          Inl (QuotaExceededException (''Authentication error during translation: '' @ msg))
      | OtherError msg \<Rightarrow> Inr (JStr val, st'))"

text \<open>The loop over \<^verbatim>\<open>value.items()\<close> of a dictionary-valued \<^verbatim>\<open>_validation\<close>.\<close>

fun translate_validation ::
  "(nat \<Rightarrow> api_outcome) \<Rightarrow> dict \<Rightarrow> tstate \<Rightarrow> dict \<Rightarrow> error + (dict \<times> tstate)" where
  "translate_validation api [] st translated_validation = Inr (translated_validation, st)"
| "translate_validation api ((val_key, val_value) # rest) st translated_validation =
     (case val_value of
        JStr s \<Rightarrow>
          (if val_key = ''reason'' \<and> py_strip s \<noteq> []
           then (case translate_reason api s st of
                   Inl e \<Rightarrow> Inl e
                 | Inr (translated_reason, st') \<Rightarrow>
                     translate_validation api rest st'
                       (dict_set translated_validation val_key translated_reason))
           else translate_validation api rest st (dict_set translated_validation val_key val_value))
      | _ \<Rightarrow> translate_validation api rest st (dict_set translated_validation val_key val_value))"

text \<open>The loop over \<^verbatim>\<open>text_record.items()\<close>.\<close>

fun translate_items ::
  "(nat \<Rightarrow> api_outcome) \<Rightarrow> dict \<Rightarrow> tstate \<Rightarrow> dict \<Rightarrow> error + (dict \<times> tstate)" where
  "translate_items api [] st translated_record = Inr (translated_record, st)"
| "translate_items api ((key, val) # rest) st translated_record =
     (case (if key = ''_validation'' then val else JNull) of
        JDict d \<Rightarrow>
          (case translate_validation api d st [] of
             Inl e \<Rightarrow> Inl e
           | Inr (translated_validation, st') \<Rightarrow>
               translate_items api rest st' (dict_set translated_record key (JDict translated_validation)))
      | _ \<Rightarrow>
          (if key = ''explanation_status''
           then translate_items api rest st (dict_set translated_record key val)
           else (case val of
                   JStr s \<Rightarrow>
                     (if py_strip s = []
                      then translate_items api rest st (dict_set translated_record key val)
                      else (case translate_text api s st of
                              Inl e \<Rightarrow> Inl e
                            | Inr (translated_text, st') \<Rightarrow>
                                translate_items api rest st' (dict_set translated_record key translated_text)))
                 | _ \<Rightarrow> translate_items api rest st (dict_set translated_record key val))))"

definition gpt_translate_text ::
  "(nat \<Rightarrow> api_outcome) \<Rightarrow> dict \<Rightarrow> string \<Rightarrow> tstate \<Rightarrow> error + (dict \<times> tstate)" where
  "gpt_translate_text api text_record target_language st = translate_items api text_record st []"

section \<open>Parallel batch runner\<close>

text \<open>
  \<^verbatim>\<open>process_records_parallel\<close> submits one \<^verbatim>\<open>validate_record\<close> task per record; task
  \<open>i\<close> makes the request whose outcome is \<open>outcomes i\<close>. \<^verbatim>\<open>as_completed\<close> yields the
  futures in the order in which they finish: \<open>order\<close>, a list of indices, which the
  scheduler decides (with any number of workers) and which is therefore a parameter.
  \<^verbatim>\<open>future.result()\<close> returns the task's value or re-raises its exception. The loop
  has one handler, for \<^verbatim>\<open>QuotaExceededException\<close>, which cancels and re-raises; any
  other exception leaves the loop as well. The loop is modelled with the local list
  \<^verbatim>\<open>results\<close> it leaves behind, so that the list at the moment of the exception can be
  talked about; the function itself returns the list or raises, nothing else.
\<close>

fun as_completed_loop ::
  "(error + dict) list \<Rightarrow> nat list \<Rightarrow> dict option list \<Rightarrow> dict option list \<times> error option" where
  "as_completed_loop futures [] results = (results, None)"
| "as_completed_loop futures (idx # rest) results =
     (case futures ! idx of
        Inr r \<Rightarrow> as_completed_loop futures rest (results[idx := Some r])
      | Inl e \<Rightarrow> (results, Some e))"

definition submit_all ::
  "dict list \<Rightarrow> (nat \<Rightarrow> api_outcome) \<Rightarrow> (string \<Rightarrow> json option) \<Rightarrow> (string \<Rightarrow> string + json)
     \<Rightarrow> (error + dict) list" where
  "submit_all records outcomes json_loads json5_loads =
     map (\<lambda>(i, rec). validate_record rec (outcomes i) json_loads json5_loads) (enumerate 0 records)"

definition process_records_parallel ::
  "dict list \<Rightarrow> (nat \<Rightarrow> api_outcome) \<Rightarrow> nat list \<Rightarrow> (string \<Rightarrow> json option) \<Rightarrow> (string \<Rightarrow> string + json)
     \<Rightarrow> error + dict option list" where
  "process_records_parallel records outcomes order json_loads json5_loads =
     (case as_completed_loop (submit_all records outcomes json_loads json5_loads) order
             (replicate (length records) None) of
        (results, None) \<Rightarrow> Inr results
      | (results, Some e) \<Rightarrow> Inl e)"

text \<open>A completion order of a batch of \<open>n\<close> tasks names every task once.\<close>

definition completion_order :: "nat \<Rightarrow> nat list \<Rightarrow> bool" where
  "completion_order n order = (distinct order \<and> set order = set [0..<n])"

section \<open>Reading results, and the sample inputs of the examples\<close>

text \<open>\<open>record_field r k\<close> is the value under key \<open>k\<close> of the record a call returned:
  \<open>None\<close> when the call raised or the record has no such key.\<close>

definition record_field :: "error + dict \<Rightarrow> string \<Rightarrow> json option" where
  "record_field r k = (case r of Inl e \<Rightarrow> None | Inr d \<Rightarrow> map_of d k)"

text \<open>A value passes the translator untouched when it is the \<^verbatim>\<open>explanation_status\<close>, or
  is no string, or is a string that is empty after \<^verbatim>\<open>strip\<close>; the dictionary under
  \<^verbatim>\<open>_validation\<close> is rebuilt instead.\<close>

definition passes_through :: "string \<Rightarrow> json \<Rightarrow> bool" where
  "passes_through key val =
     (case (if key = ''_validation'' then val else JNull) of
        JDict d \<Rightarrow> False
      | _ \<Rightarrow> key = ''explanation_status'' \<or> (case val of JStr s \<Rightarrow> py_strip s = [] | _ \<Rightarrow> True))"

text \<open>The record of the scenario \<^verbatim>\<open>{"Question": "2+2?", "Answer": "5", "Question Type": "short"}\<close>.\<close>

definition scenario_record :: dict where
  "scenario_record =
     [(''Question'', JStr ''2+2?''), (''Answer'', JStr ''5''), (''Question Type'', JStr ''short'')]"

text \<open>What \<^verbatim>\<open>json.loads\<close> returns on the response texts used in the examples below (on
  these texts it succeeds, so \<^verbatim>\<open>json5.loads\<close> is never reached there).\<close>

definition sample_json_loads :: "string \<Rightarrow> json option" where
  \<open>sample_json_loads s =
     (if s = ''[]'' then Some (JList [])
      else if s = ''{"valid": true, "reason": "4 is right"}''
        then Some (JDict [(''valid'', JBool True), (''reason'', JStr ''4 is right'')])
      else if s = ''{"valid": false, "reason": "2+2=4", "corrected_answer": "4"}''
        then Some (JDict [(''valid'', JBool False), (''reason'', JStr ''2+2=4''),
                          (''corrected_answer'', JStr ''4'')])
      else if s = ''{"valid": false, "reason": "explain it", "corrected_answer": "5"}''
        then Some (JDict [(''valid'', JBool False), (''reason'', JStr ''explain it''),
                          (''corrected_answer'', JStr ''5'')])
      else if s = ''{"valid": false, "reason": "2+2=4", "corrected_answer": ""}''
        then Some (JDict [(''valid'', JBool False), (''reason'', JStr ''2+2=4''),
                          (''corrected_answer'', JStr [])])
      else if s = ''{"valid": false, "reason": "unclear"}''
        then Some (JDict [(''valid'', JBool False), (''reason'', JStr ''unclear'')])
      else None)\<close>

definition sample_json5_loads :: "string \<Rightarrow> string + json" where
  "sample_json5_loads s = Inl ''invalid JSON5''"

text \<open>\<open>translated_field r k\<close> reads the record \<^verbatim>\<open>gpt_translate_text\<close> returned in the same way.\<close>

definition translated_field :: "error + (dict \<times> tstate) \<Rightarrow> string \<Rightarrow> json option" where
  "translated_field r k = (case r of Inl e \<Rightarrow> None | Inr (d, st) \<Rightarrow> map_of d k)"

text \<open>A processed record as the validator leaves it, with a number and a blank string among
  its values.\<close>

definition processed_sample :: dict where
  "processed_sample =
     [(''Question'', JStr ''2+2?''), (''Answer'', JStr ''4''), (''Question Number'', JNum 7),
      (''Grade'', JStr '' ''),
      (''_validation'', JDict [(''valid'', JBool True), (''reason'', JStr ''4 is right'')]),
      (''explanation_status'', JStr ''Answer is correct.'')]"

text \<open>A record whose \<^verbatim>\<open>Grade\<close> is a no-break space (U+00A0) and whose \<^verbatim>\<open>Difficulty\<close> is a
  space, an em space (U+2003) and a line feed: strings of whitespace only.\<close>

definition blank_sample :: dict where
  "blank_sample =
     [(''Question'', JStr ''2+2?''), (''Question Number'', JNum 7),
      (''Grade'', JStr [CHR 0xC2, CHR 0xA0]),
      (''Difficulty'', JStr [CHR 0x20, CHR 0xE2, CHR 0x80, CHR 0x83, CHR 0x0A]),
      (''_validation'', JDict [(''valid'', JBool True), (''reason'', JStr ''4 is right'')]),
      (''explanation_status'', JStr ''Answer is correct.'')]"

text \<open>Requests that succeed twice and then fail with the given exception, and a batch in
  which the request of the first record succeeds and every later one hits the quota.\<close>

definition fails_from_third :: "api_outcome \<Rightarrow> nat \<Rightarrow> api_outcome" where
  "fails_from_third failure n = (if n < 2 then Completion ''ok '' else failure)"

definition quota_after_first :: "string \<Rightarrow> nat \<Rightarrow> api_outcome" where
  "quota_after_first text i =
     (if i = 0 then Completion text else RateLimitError ''You exceeded your current quota'')"

section \<open>Facts about dictionaries\<close>

lemma map_of_dict_set: "map_of (dict_set d k v) = (map_of d)(k \<mapsto> v)"
  by (induction d) auto

lemma dict_set_fresh: "k \<notin> fst ` set d \<Longrightarrow> dict_set d k v = d @ [(k, v)]"
  by (induction d) auto

lemma filter_dict_set:
  "\<not> P k \<Longrightarrow> filter (\<lambda>kv. P (fst kv)) (dict_set d k v) = filter (\<lambda>kv. P (fst kv)) d"
  by (induction d) auto

section \<open>The validator\<close>

lemma key_of_answer: "key_of (get_key_map_for_language l) ''answer'' = Inr ''Answer''"
  by (simp add: key_of_def get_key_map_for_language_def KEY_MAPS_English_def)

lemma key_of_explanation: "key_of (get_key_map_for_language l) ''explanation'' = Inr ''Explanation''"
  by (simp add: key_of_def get_key_map_for_language_def KEY_MAPS_English_def)

lemma scenario_call_arguments:
  "call_arguments scenario_record = (JStr ''2+2?'', JStr ''5'', JStr ''short'')"
  by code_simp

text \<open>The outcome dictionaries \<^verbatim>\<open>call_openai\<close> returns on the sample responses.\<close>

lemma call_valid:
  \<open>call_openai (JStr ''2+2?'') (JStr ''5'') (JStr ''short'')
     (Completion ''{"valid": true, "reason": "4 is right"}'') sample_json_loads sample_json5_loads =
   Inr (JDict [(''valid'', JBool True), (''reason'', JStr ''4 is right'')])\<close>
  by code_simp

lemma call_corrected_4:
  \<open>call_openai (JStr ''2+2?'') (JStr ''5'') (JStr ''short'')
     (Completion ''{"valid": false, "reason": "2+2=4", "corrected_answer": "4"}'')
     sample_json_loads sample_json5_loads =
   Inr (JDict [(''valid'', JBool False), (''reason'', JStr ''2+2=4''), (''corrected_answer'', JStr ''4'')])\<close>
  by code_simp

lemma call_corrected_5:
  \<open>call_openai (JStr ''2+2?'') (JStr ''5'') (JStr ''short'')
     (Completion ''{"valid": false, "reason": "explain it", "corrected_answer": "5"}'')
     sample_json_loads sample_json5_loads =
   Inr (JDict [(''valid'', JBool False), (''reason'', JStr ''explain it''), (''corrected_answer'', JStr ''5'')])\<close>
  by code_simp

lemma call_corrected_empty:
  \<open>call_openai (JStr ''2+2?'') (JStr ''5'') (JStr ''short'')
     (Completion ''{"valid": false, "reason": "2+2=4", "corrected_answer": ""}'')
     sample_json_loads sample_json5_loads =
   Inr (JDict [(''valid'', JBool False), (''reason'', JStr ''2+2=4''), (''corrected_answer'', JStr [])])\<close>
  by code_simp

lemma call_unclear:
  \<open>call_openai (JStr ''2+2?'') (JStr ''5'') (JStr ''short'')
     (Completion ''{"valid": false, "reason": "unclear"}'') sample_json_loads sample_json5_loads =
   Inr (JDict [(''valid'', JBool False), (''reason'', JStr ''unclear'')])\<close>
  by code_simp

lemma call_list:
  "call_openai (JStr ''2+2?'') (JStr ''5'') (JStr ''short'') (Completion ''[]'')
     sample_json_loads sample_json5_loads = Inr (JList [])"
  by code_simp

text \<open>The branch of \<^verbatim>\<open>validate_record\<close> for an outcome that is not valid, with the two
  keys of the English key map looked up.\<close>

lemma apply_result_invalid:
  assumes "\<not> truthy (py_get result ''valid'' (JBool False))"
  shows "apply_result (get_key_map_for_language l) record (JDict result) =
     Inr (dict_set
           (let rec1 = (if truthy (py_get result ''corrected_answer'' JNull)
                        then dict_set (dict_set record ''Answer'' (py_get result ''corrected_answer'' JNull))
                               ''explanation_status'' (JStr ''Answer corrected by AI.'')
                        else record)
            in if truthy (py_get result ''corrected_explanation'' JNull)
               then dict_set rec1 ''Explanation'' (py_get result ''corrected_explanation'' JNull)
               else dict_set rec1 ''explanation_status'' (JStr ''Explanation is already correct.''))
           ''_validation''
           (JDict [(''valid'', JBool False), (''reason'', py_get result ''reason'' JNull),
                   (''corrected'', JBool True)]))"
  using assms
  by (simp add: apply_result_def correct_answer_def correct_explanation_def key_of_answer
      key_of_explanation Let_def)

lemma validate_scenario:
  assumes "call_openai (JStr ''2+2?'') (JStr ''5'') (JStr ''short'') outcome json_loads json5_loads = Inr res"
  shows "validate_record scenario_record outcome json_loads json5_loads =
           apply_result (get_key_map_for_language (detect_language scenario_record)) scenario_record res"
  using assms by (simp add: validate_record_def scenario_call_arguments)

text \<open>
  C5. When the outcome of the validation call is a dictionary whose \<^verbatim>\<open>valid\<close> is true
  (any value Python takes for true), \<^verbatim>\<open>validate_record\<close> returns the record with
  \<^verbatim>\<open>_validation = {valid: True, reason}\<close> and
  \<^verbatim>\<open>explanation_status = "Answer is correct."\<close> attached and nothing else changed: without
  those two keys the returned record is the input record, item by item, and so the
  values under \<^verbatim>\<open>Answer\<close> and \<^verbatim>\<open>Explanation\<close> are the input's.
\<close>

theorem validate_record_valid:
  assumes "call_arguments record = (question, answer, question_type)"
    and "call_openai question answer question_type outcome json_loads json5_loads = Inr (JDict result)"
    and "truthy (py_get result ''valid'' (JBool False))"
  shows "\<exists>new_rec. validate_record record outcome json_loads json5_loads = Inr new_rec
           \<and> map_of new_rec ''_validation'' =
               Some (JDict [(''valid'', JBool True), (''reason'', py_get result ''reason'' JNull)])
           \<and> map_of new_rec ''explanation_status'' = Some (JStr ''Answer is correct.'')
           \<and> filter (\<lambda>kv. fst kv \<noteq> ''_validation'' \<and> fst kv \<noteq> ''explanation_status'') new_rec =
               filter (\<lambda>kv. fst kv \<noteq> ''_validation'' \<and> fst kv \<noteq> ''explanation_status'') record
           \<and> (\<forall>k. k \<noteq> ''_validation'' \<and> k \<noteq> ''explanation_status'' \<longrightarrow> map_of new_rec k = map_of record k)
           \<and> map_of new_rec ''Answer'' = map_of record ''Answer''
           \<and> map_of new_rec ''Explanation'' = map_of record ''Explanation''"
  using assms
  by (simp add: validate_record_def apply_result_def map_of_dict_set
      filter_dict_set [where P = "\<lambda>k. k \<noteq> ''_validation'' \<and> k \<noteq> ''explanation_status''"])

theorem validate_record_valid_witness:
  \<open>call_arguments scenario_record = (JStr ''2+2?'', JStr ''5'', JStr ''short'')
   \<and> truthy (py_get [(''valid'', JBool True), (''reason'', JStr ''4 is right'')] ''valid'' (JBool False))
   \<and> (\<exists>new_rec. validate_record scenario_record (Completion ''{"valid": true, "reason": "4 is right"}'')
                    sample_json_loads sample_json5_loads = Inr new_rec
         \<and> map_of new_rec ''_validation'' =
             Some (JDict [(''valid'', JBool True), (''reason'', JStr ''4 is right'')])
         \<and> map_of new_rec ''explanation_status'' = Some (JStr ''Answer is correct.'')
         \<and> map_of new_rec ''Answer'' = Some (JStr ''5''))\<close>
proof -
  have valid: "truthy (py_get [(''valid'', JBool True), (''reason'', JStr ''4 is right'')] ''valid'' (JBool False))"
    by (simp add: py_get_def)
  from validate_record_valid [OF scenario_call_arguments call_valid valid]
  show ?thesis
    using scenario_call_arguments valid by (auto simp: py_get_def scenario_record_def)
qed

text \<open>What \<^verbatim>\<open>call_openai\<close> itself does with the exceptions of the request, for a question
  type that is a string: only the quota signal leaves it.\<close>

lemma call_openai_outcomes:
  assumes "question_type = JStr qt"
  shows "(is_quota_message msg \<longrightarrow>
            call_openai question answer question_type (RateLimitError msg) json_loads json5_loads =
              Inl (QuotaExceededException (''OpenAI API quota exceeded: '' @ msg)))
       \<and> (\<not> is_quota_message msg \<longrightarrow>
            call_openai question answer question_type (RateLimitError msg) json_loads json5_loads =
              Inr (JDict [(''valid'', JBool False), (''reason'', JStr (''Rate limit error: '' @ msg)),
                          (''corrected_answer'', JNull)]))
       \<and> call_openai question answer question_type (AuthenticationError msg) json_loads json5_loads =
              Inr (JDict [(''valid'', JBool False), (''reason'', JStr (''Authentication error: '' @ msg)),
                          (''corrected_answer'', JNull)])
       \<and> call_openai question answer question_type (OtherError msg) json_loads json5_loads =
              Inr (JDict [(''valid'', JBool False), (''reason'', JStr (''OpenAI API error: '' @ msg)),
                          (''corrected_answer'', JNull)])
       \<and> (\<forall>outcome e. call_openai question answer question_type outcome json_loads json5_loads = Inl e
             \<longrightarrow> (\<exists>m. e = QuotaExceededException m))"
  using assms
  by (auto simp: call_openai_def get_system_prompt_def degraded_def Let_def
      split: api_outcome.splits option.splits sum.splits if_splits)

text \<open>
  C7, on the code. The response text \<^verbatim>\<open>[]\<close> is valid JSON, so \<^verbatim>\<open>call_openai\<close> returns the
  list it parses to; \<^verbatim>\<open>validate_record\<close> then calls \<^verbatim>\<open>result.get\<close> on a list, and the
  \<^verbatim>\<open>AttributeError\<close> leaves the validator: an exception that is not the quota signal.
\<close>

theorem validate_record_raises_on_list:
  "validate_record scenario_record (Completion ''[]'') sample_json_loads sample_json5_loads
     = Inl AttributeError"
  unfolding validate_scenario [OF call_list]
  by (simp add: apply_result_def)

text \<open>
  The scenario of the specification, run on the code: the response says the answer is
  not valid and gives the corrected answer \<^verbatim>\<open>"4"\<close> and no corrected explanation. The
  status of the returned record is not \<^verbatim>\<open>"Answer corrected by AI."\<close>.
\<close>

theorem scenario_status_counterexample:
  \<open>record_field (validate_record scenario_record
       (Completion ''{"valid": false, "reason": "2+2=4", "corrected_answer": "4"}'')
       sample_json_loads sample_json5_loads) ''explanation_status''
     = Some (JStr ''Explanation is already correct.'')
   \<and> record_field (validate_record scenario_record
       (Completion ''{"valid": false, "reason": "2+2=4", "corrected_answer": "4"}'')
       sample_json_loads sample_json5_loads) ''explanation_status''
     \<noteq> Some (JStr ''Answer corrected by AI.'')\<close>
  unfolding validate_scenario [OF call_corrected_4]
  by (simp add: apply_result_invalid py_get_def record_field_def map_of_dict_set)

text \<open>
  C2 (as amended). For the record \<^verbatim>\<open>{"Question": "2+2?", "Answer": "5", "Question Type": "short"}\<close>
  and an outcome that is not valid, has the corrected answer \<^verbatim>\<open>"4"\<close> and no corrected
  explanation, \<^verbatim>\<open>validate_record\<close> returns the record with \<^verbatim>\<open>Answer\<close> equal to \<^verbatim>\<open>"4"\<close>,
  \<^verbatim>\<open>_validation\<close> equal to \<^verbatim>\<open>{valid: False, reason, corrected: True}\<close> and
  \<^verbatim>\<open>explanation_status\<close> equal to \<^verbatim>\<open>"Explanation is already correct."\<close>: the status
  \<^verbatim>\<open>"Answer corrected by AI."\<close> written with the answer is overwritten by the
  \<^verbatim>\<open>else\<close> branch of the test for a corrected explanation.
\<close>

theorem scenario_status:
  assumes "call_openai (JStr ''2+2?'') (JStr ''5'') (JStr ''short'') outcome json_loads json5_loads = Inr (JDict result)"
    and "\<not> truthy (py_get result ''valid'' (JBool False))"
    and "py_get result ''corrected_answer'' JNull = JStr ''4''"
    and "\<not> truthy (py_get result ''corrected_explanation'' JNull)"
  shows "validate_record scenario_record outcome json_loads json5_loads =
           Inr [(''Question'', JStr ''2+2?''), (''Answer'', JStr ''4''), (''Question Type'', JStr ''short''),
                (''explanation_status'', JStr ''Explanation is already correct.''),
                (''_validation'', JDict [(''valid'', JBool False), (''reason'', py_get result ''reason'' JNull),
                                        (''corrected'', JBool True)])]"
  using assms(2-4)
  unfolding validate_scenario [OF assms(1)]
  by (simp add: apply_result_invalid scenario_record_def)

theorem scenario_status_witness:
  \<open>\<not> truthy (py_get [(''valid'', JBool False), (''reason'', JStr ''2+2=4''), (''corrected_answer'', JStr ''4'')]
                ''valid'' (JBool False))
   \<and> py_get [(''valid'', JBool False), (''reason'', JStr ''2+2=4''), (''corrected_answer'', JStr ''4'')]
        ''corrected_answer'' JNull = JStr ''4''
   \<and> \<not> truthy (py_get [(''valid'', JBool False), (''reason'', JStr ''2+2=4''), (''corrected_answer'', JStr ''4'')]
                ''corrected_explanation'' JNull)
   \<and> validate_record scenario_record
        (Completion ''{"valid": false, "reason": "2+2=4", "corrected_answer": "4"}'')
        sample_json_loads sample_json5_loads =
      Inr [(''Question'', JStr ''2+2?''), (''Answer'', JStr ''4''), (''Question Type'', JStr ''short''),
           (''explanation_status'', JStr ''Explanation is already correct.''),
           (''_validation'', JDict [(''valid'', JBool False), (''reason'', JStr ''2+2=4''),
                                   (''corrected'', JBool True)])]\<close>
  using scenario_status [OF call_corrected_4]
  by (simp add: py_get_def)

text \<open>
  An outcome that is not valid and has neither a corrected answer nor a corrected
  explanation: the input record has no \<^verbatim>\<open>explanation_status\<close>, the returned record
  has \<^verbatim>\<open>"Explanation is already correct."\<close>.
\<close>

theorem explanation_status_counterexample:
  \<open>call_openai (JStr ''2+2?'') (JStr ''5'') (JStr ''short'')
       (Completion ''{"valid": false, "reason": "unclear"}'') sample_json_loads sample_json5_loads =
     Inr (JDict [(''valid'', JBool False), (''reason'', JStr ''unclear'')])
   \<and> map_of scenario_record ''explanation_status'' = None
   \<and> record_field (validate_record scenario_record
        (Completion ''{"valid": false, "reason": "unclear"}'') sample_json_loads sample_json5_loads)
        ''explanation_status'' = Some (JStr ''Explanation is already correct.'')\<close>
  unfolding validate_scenario [OF call_unclear] call_unclear
  by (simp add: apply_result_invalid py_get_def record_field_def map_of_dict_set scenario_record_def)

text \<open>
  C3 (as amended). For every record whose outcome is not valid, the status is decided
  by the corrected explanation: without one the status is
  \<^verbatim>\<open>"Explanation is already correct."\<close>, whether or not a corrected answer was
  supplied; with one and a corrected answer it is \<^verbatim>\<open>"Answer corrected by AI."\<close>; with one
  and no corrected answer the validator assigns no status, and the record keeps the
  \<^verbatim>\<open>explanation_status\<close> it came with (none, if it had none).
\<close>

theorem explanation_status_of_invalid:
  assumes "call_arguments record = (question, answer, question_type)"
    and "call_openai question answer question_type outcome json_loads json5_loads = Inr (JDict result)"
    and "\<not> truthy (py_get result ''valid'' (JBool False))"
  shows "\<exists>new_rec. validate_record record outcome json_loads json5_loads = Inr new_rec
           \<and> (\<not> truthy (py_get result ''corrected_explanation'' JNull) \<longrightarrow>
                map_of new_rec ''explanation_status'' = Some (JStr ''Explanation is already correct.''))
           \<and> (truthy (py_get result ''corrected_explanation'' JNull)
                \<and> truthy (py_get result ''corrected_answer'' JNull) \<longrightarrow>
                map_of new_rec ''explanation_status'' = Some (JStr ''Answer corrected by AI.''))
           \<and> (truthy (py_get result ''corrected_explanation'' JNull)
                \<and> \<not> truthy (py_get result ''corrected_answer'' JNull) \<longrightarrow>
                map_of new_rec ''explanation_status'' = map_of record ''explanation_status'')"
  using assms
  by (simp add: validate_record_def apply_result_invalid map_of_dict_set Let_def)

theorem explanation_status_of_invalid_witness:
  \<open>\<not> truthy (py_get [(''valid'', JBool False), (''reason'', JStr ''unclear'')] ''valid'' (JBool False))
   \<and> \<not> truthy (py_get [(''valid'', JBool False), (''reason'', JStr ''unclear'')] ''corrected_explanation'' JNull)
   \<and> (\<exists>new_rec. validate_record scenario_record (Completion ''{"valid": false, "reason": "unclear"}'')
                    sample_json_loads sample_json5_loads = Inr new_rec
         \<and> map_of new_rec ''explanation_status'' = Some (JStr ''Explanation is already correct.''))\<close>
proof -
  have invalid: "\<not> truthy (py_get [(''valid'', JBool False), (''reason'', JStr ''unclear'')] ''valid'' (JBool False))"
    by (simp add: py_get_def)
  from explanation_status_of_invalid [OF scenario_call_arguments call_unclear invalid]
  show ?thesis
    using invalid by (auto simp: py_get_def)
qed

text \<open>
  Two outcomes that are not valid and have a corrected answer that is not null. In the
  first the corrected answer is \<^verbatim>\<open>"5"\<close>, the answer the record already has: the
  returned answer does not differ from the original. In the second it is the empty
  string: the returned answer is not the corrected answer.
\<close>

theorem corrected_answer_counterexample:
  \<open>call_openai (JStr ''2+2?'') (JStr ''5'') (JStr ''short'')
       (Completion ''{"valid": false, "reason": "explain it", "corrected_answer": "5"}'')
       sample_json_loads sample_json5_loads =
     Inr (JDict [(''valid'', JBool False), (''reason'', JStr ''explain it''), (''corrected_answer'', JStr ''5'')])
   \<and> record_field (validate_record scenario_record
        (Completion ''{"valid": false, "reason": "explain it", "corrected_answer": "5"}'')
        sample_json_loads sample_json5_loads) ''_validation''
      = Some (JDict [(''valid'', JBool False), (''reason'', JStr ''explain it''), (''corrected'', JBool True)])
   \<and> record_field (validate_record scenario_record
        (Completion ''{"valid": false, "reason": "explain it", "corrected_answer": "5"}'')
        sample_json_loads sample_json5_loads) ''Answer''
      = map_of scenario_record ''Answer''
   \<and> call_openai (JStr ''2+2?'') (JStr ''5'') (JStr ''short'')
       (Completion ''{"valid": false, "reason": "2+2=4", "corrected_answer": ""}'')
       sample_json_loads sample_json5_loads =
     Inr (JDict [(''valid'', JBool False), (''reason'', JStr ''2+2=4''), (''corrected_answer'', JStr [])])
   \<and> record_field (validate_record scenario_record
        (Completion ''{"valid": false, "reason": "2+2=4", "corrected_answer": ""}'')
        sample_json_loads sample_json5_loads) ''_validation''
      = Some (JDict [(''valid'', JBool False), (''reason'', JStr ''2+2=4''), (''corrected'', JBool True)])
   \<and> record_field (validate_record scenario_record
        (Completion ''{"valid": false, "reason": "2+2=4", "corrected_answer": ""}'')
        sample_json_loads sample_json5_loads) ''Answer''
      \<noteq> Some (JStr [])\<close>
  unfolding validate_scenario [OF call_corrected_5] validate_scenario [OF call_corrected_empty]
    call_corrected_5 call_corrected_empty
  by (simp add: apply_result_invalid py_get_def record_field_def map_of_dict_set scenario_record_def)

text \<open>
  C4 (as amended). For every record whose outcome is not valid and has a corrected
  answer that Python takes for true (so not null and not empty), the returned record
  has \<^verbatim>\<open>_validation\<close> with \<^verbatim>\<open>valid: False\<close> and \<^verbatim>\<open>corrected: True\<close>, and its \<^verbatim>\<open>Answer\<close>
  is that corrected answer; it differs from the input's \<^verbatim>\<open>Answer\<close> exactly when the
  corrected answer differs from it.
\<close>

theorem corrected_answer_written:
  assumes "call_arguments record = (question, answer, question_type)"
    and "call_openai question answer question_type outcome json_loads json5_loads = Inr (JDict result)"
    and "\<not> truthy (py_get result ''valid'' (JBool False))"
    and "truthy (py_get result ''corrected_answer'' JNull)"
  shows "\<exists>new_rec. validate_record record outcome json_loads json5_loads = Inr new_rec
           \<and> map_of new_rec ''_validation'' =
               Some (JDict [(''valid'', JBool False), (''reason'', py_get result ''reason'' JNull),
                            (''corrected'', JBool True)])
           \<and> map_of new_rec ''Answer'' = Some (py_get result ''corrected_answer'' JNull)
           \<and> (map_of new_rec ''Answer'' \<noteq> map_of record ''Answer'' \<longleftrightarrow>
                map_of record ''Answer'' \<noteq> Some (py_get result ''corrected_answer'' JNull))"
  using assms
  by (auto simp add: validate_record_def apply_result_invalid map_of_dict_set Let_def)

theorem corrected_answer_written_witness:
  \<open>\<not> truthy (py_get [(''valid'', JBool False), (''reason'', JStr ''2+2=4''), (''corrected_answer'', JStr ''4'')]
                ''valid'' (JBool False))
   \<and> truthy (py_get [(''valid'', JBool False), (''reason'', JStr ''2+2=4''), (''corrected_answer'', JStr ''4'')]
                ''corrected_answer'' JNull)
   \<and> (\<exists>new_rec. validate_record scenario_record
                   (Completion ''{"valid": false, "reason": "2+2=4", "corrected_answer": "4"}'')
                    sample_json_loads sample_json5_loads = Inr new_rec
         \<and> map_of new_rec ''Answer'' = Some (JStr ''4'')
         \<and> map_of new_rec ''Answer'' \<noteq> map_of scenario_record ''Answer'')\<close>
proof -
  let ?result = "[(''valid'', JBool False), (''reason'', JStr ''2+2=4''), (''corrected_answer'', JStr ''4'')]"
  have invalid: "\<not> truthy (py_get ?result ''valid'' (JBool False))"
    by (simp add: py_get_def)
  have corrected: "truthy (py_get ?result ''corrected_answer'' JNull)"
    by (simp add: py_get_def)
  from corrected_answer_written [OF scenario_call_arguments call_corrected_4 invalid corrected]
  show ?thesis
    using invalid corrected by (auto simp: py_get_def scenario_record_def)
qed

text \<open>A corrected answer that is null, empty or otherwise false leaves the answer alone.\<close>

lemma falsy_corrected_answer_ignored:
  assumes "call_arguments record = (question, answer, question_type)"
    and "call_openai question answer question_type outcome json_loads json5_loads = Inr (JDict result)"
    and "\<not> truthy (py_get result ''valid'' (JBool False))"
    and "\<not> truthy (py_get result ''corrected_answer'' JNull)"
  shows "\<exists>new_rec. validate_record record outcome json_loads json5_loads = Inr new_rec
           \<and> map_of new_rec ''Answer'' = map_of record ''Answer''"
  using assms
  by (auto simp add: validate_record_def apply_result_invalid map_of_dict_set Let_def)

section \<open>The translator\<close>

text \<open>Neither request handler lets anything but the quota signal out.\<close>

lemma translate_reason_error:
  "translate_reason api s st = Inl e \<Longrightarrow> \<exists>m. e = QuotaExceededException m"
  by (auto simp: translate_reason_def Let_def split: api_outcome.splits if_splits)

lemma translate_text_error:
  "translate_text api s st = Inl e \<Longrightarrow> \<exists>m. e = QuotaExceededException m"
  by (auto simp: translate_text_def Let_def split: api_outcome.splits if_splits)

lemma translate_validation_step:
  "(\<exists>m. translate_validation api ((k, v) # rest) st acc = Inl (QuotaExceededException m)) \<or>
   (\<exists>w st1. translate_validation api ((k, v) # rest) st acc =
               translate_validation api rest st1 (dict_set acc k w)
            \<and> (k \<noteq> ''reason'' \<longrightarrow> w = v \<and> st1 = st))"
proof (cases "\<exists>s. v = JStr s \<and> k = ''reason'' \<and> py_strip s \<noteq> []")
  case True
  then obtain s where s: "v = JStr s" "k = ''reason''" "py_strip s \<noteq> []" by blast
  show ?thesis
  proof (cases "translate_reason api s st")
    case (Inl e)
    with translate_reason_error [OF Inl] s show ?thesis by auto
  next
    case (Inr p)
    then show ?thesis using s by (cases p) auto
  qed
next
  case False
  then have "translate_validation api ((k, v) # rest) st acc =
               translate_validation api rest st (dict_set acc k v)"
    by (cases v) auto
  then show ?thesis by blast
qed

lemma translate_validation_step_Inr:
  assumes "translate_validation api ((k, v) # rest) st acc = Inr r"
  obtains w st1 where "translate_validation api rest st1 (dict_set acc k w) = Inr r"
    and "k \<noteq> ''reason'' \<longrightarrow> w = v \<and> st1 = st"
  using translate_validation_step [of api k v rest st acc]
proof (elim disjE exE conjE)
  fix m
  assume "translate_validation api ((k, v) # rest) st acc = Inl (QuotaExceededException m)"
  with assms show ?thesis by (simp del: translate_validation.simps)
next
  fix w st1
  assume eq: "translate_validation api ((k, v) # rest) st acc =
                translate_validation api rest st1 (dict_set acc k w)"
    and kept: "k \<noteq> ''reason'' \<longrightarrow> w = v \<and> st1 = st"
  from assms have "translate_validation api rest st1 (dict_set acc k w) = Inr r"
    unfolding eq .
  then show ?thesis using kept by (rule that)
qed

lemma translate_validation_error:
  "translate_validation api d st acc = Inl e \<Longrightarrow> \<exists>m. e = QuotaExceededException m"
proof (induction d arbitrary: st acc)
  case Nil
  then show ?case by simp
next
  case (Cons kv d)
  obtain k v where kv: "kv = (k, v)" by (cases kv)
  from translate_validation_step [of api k v d st acc] show ?case
  proof (elim disjE exE conjE)
    fix m
    assume "translate_validation api ((k, v) # d) st acc = Inl (QuotaExceededException m)"
    with Cons.prems show ?case unfolding kv by simp
  next
    fix w st1
    assume eq: "translate_validation api ((k, v) # d) st acc =
                  translate_validation api d st1 (dict_set acc k w)"
    from Cons.prems have "translate_validation api d st1 (dict_set acc k w) = Inl e"
      unfolding kv eq .
    then show ?case by (rule Cons.IH)
  qed
qed

lemma translate_items_step:
  "(\<exists>m. translate_items api ((k, v) # rest) st acc = Inl (QuotaExceededException m)) \<or>
   (\<exists>w st1. translate_items api ((k, v) # rest) st acc =
               translate_items api rest st1 (dict_set acc k w)
            \<and> (passes_through k v \<longrightarrow> w = v \<and> st1 = st)
            \<and> (\<forall>d. k = ''_validation'' \<and> v = JDict d \<longrightarrow>
                  (\<exists>d'. w = JDict d' \<and> translate_validation api d st [] = Inr (d', st1))))"
proof (cases "\<exists>d. k = ''_validation'' \<and> v = JDict d")
  case True
  then obtain d where d: "k = ''_validation''" "v = JDict d" by blast
  show ?thesis
  proof (cases "translate_validation api d st []")
    case (Inl e)
    with translate_validation_error [OF Inl] d show ?thesis by auto
  next
    case (Inr p)
    then show ?thesis using d by (cases p) (auto simp: passes_through_def)
  qed
next
  case nodict: False
  show ?thesis
  proof (cases "passes_through k v")
    case True
    with nodict have "translate_items api ((k, v) # rest) st acc =
                 translate_items api rest st (dict_set acc k v)"
      by (cases v) (auto simp: passes_through_def split: if_splits)
    with nodict show ?thesis by blast
  next
    case False
    with nodict obtain s where s: "v = JStr s" "py_strip s \<noteq> []" "k \<noteq> ''explanation_status''"
      by (cases v) (auto simp: passes_through_def split: if_splits)
    show ?thesis
    proof (cases "translate_text api s st")
      case (Inl e)
      with translate_text_error [OF Inl] s nodict show ?thesis by auto
    next
      case (Inr p)
      then show ?thesis using s nodict False by (cases p) auto
    qed
  qed
qed

lemma translate_items_step_Inr:
  assumes "translate_items api ((k, v) # rest) st acc = Inr r"
  obtains w st1 where "translate_items api rest st1 (dict_set acc k w) = Inr r"
    and "passes_through k v \<longrightarrow> w = v \<and> st1 = st"
    and "\<forall>d. k = ''_validation'' \<and> v = JDict d \<longrightarrow>
           (\<exists>d'. w = JDict d' \<and> translate_validation api d st [] = Inr (d', st1))"
  using translate_items_step [of api k v rest st acc]
proof (elim disjE exE conjE)
  fix m
  assume "translate_items api ((k, v) # rest) st acc = Inl (QuotaExceededException m)"
  with assms show ?thesis by (simp del: translate_items.simps)
next
  fix w st1
  assume eq: "translate_items api ((k, v) # rest) st acc =
                translate_items api rest st1 (dict_set acc k w)"
    and kept: "passes_through k v \<longrightarrow> w = v \<and> st1 = st"
    and val: "\<forall>d. k = ''_validation'' \<and> v = JDict d \<longrightarrow>
                  (\<exists>d'. w = JDict d' \<and> translate_validation api d st [] = Inr (d', st1))"
  from assms have "translate_items api rest st1 (dict_set acc k w) = Inr r"
    unfolding eq .
  then show ?thesis using kept val by (rule that)
qed

lemma translate_items_error:
  "translate_items api items st acc = Inl e \<Longrightarrow> \<exists>m. e = QuotaExceededException m"
proof (induction items arbitrary: st acc)
  case Nil
  then show ?case by simp
next
  case (Cons kv items)
  obtain k v where kv: "kv = (k, v)" by (cases kv)
  from translate_items_step [of api k v items st acc] show ?case
  proof (elim disjE exE conjE)
    fix m
    assume "translate_items api ((k, v) # items) st acc = Inl (QuotaExceededException m)"
    with Cons.prems show ?case unfolding kv by simp
  next
    fix w st1
    assume eq: "translate_items api ((k, v) # items) st acc =
                  translate_items api items st1 (dict_set acc k w)"
    from Cons.prems have "translate_items api items st1 (dict_set acc k w) = Inl e"
      unfolding kv eq .
    then show ?case by (rule Cons.IH)
  qed
qed

lemma translate_items_keys:
  "translate_items api items st acc = Inr (out, st') \<Longrightarrow> distinct (map fst acc @ map fst items)
     \<Longrightarrow> map fst out = map fst acc @ map fst items"
proof (induction items arbitrary: st acc)
  case Nil
  then show ?case by simp
next
  case (Cons kv items)
  obtain k v where kv: "kv = (k, v)" by (cases kv)
  from Cons.prems(2) have notin: "k \<notin> fst ` set acc" by (auto simp: kv)
  obtain w st1 where step: "translate_items api items st1 (dict_set acc k w) = Inr (out, st')"
    and kept: "passes_through k v \<longrightarrow> w = v \<and> st1 = st"
    and val: "\<forall>d. k = ''_validation'' \<and> v = JDict d \<longrightarrow>
                  (\<exists>d'. w = JDict d' \<and> translate_validation api d st [] = Inr (d', st1))"
    by (rule translate_items_step_Inr [OF Cons.prems(1) [unfolded kv]])
  have "distinct (map fst (dict_set acc k w) @ map fst items)"
    using Cons.prems(2) by (simp add: dict_set_fresh [OF notin] kv)
  from Cons.IH [OF step this] show ?case
    by (simp add: dict_set_fresh [OF notin] kv)
qed

lemma translate_items_other:
  "translate_items api items st acc = Inr (out, st') \<Longrightarrow> k \<notin> fst ` set items
     \<Longrightarrow> map_of out k = map_of acc k"
proof (induction items arbitrary: st acc)
  case Nil
  then show ?case by simp
next
  case (Cons kv items)
  obtain k' v where kv: "kv = (k', v)" by (cases kv)
  from Cons.prems(2) have ne: "k' \<noteq> k" and notin: "k \<notin> fst ` set items" by (auto simp: kv)
  obtain w st1 where step: "translate_items api items st1 (dict_set acc k' w) = Inr (out, st')"
    and kept: "passes_through k' v \<longrightarrow> w = v \<and> st1 = st"
    and val: "\<forall>d. k' = ''_validation'' \<and> v = JDict d \<longrightarrow>
                  (\<exists>d'. w = JDict d' \<and> translate_validation api d st [] = Inr (d', st1))"
    by (rule translate_items_step_Inr [OF Cons.prems(1) [unfolded kv]])
  from Cons.IH [OF step notin] ne show ?case
    by (simp add: map_of_dict_set)
qed

lemma translate_validation_other:
  "translate_validation api d st acc = Inr (out, st') \<Longrightarrow> k \<notin> fst ` set d
     \<Longrightarrow> map_of out k = map_of acc k"
proof (induction d arbitrary: st acc)
  case Nil
  then show ?case by simp
next
  case (Cons kv d)
  obtain k' v where kv: "kv = (k', v)" by (cases kv)
  from Cons.prems(2) have ne: "k' \<noteq> k" and notin: "k \<notin> fst ` set d" by (auto simp: kv)
  obtain w st1 where step: "translate_validation api d st1 (dict_set acc k' w) = Inr (out, st')"
    and kept: "k' \<noteq> ''reason'' \<longrightarrow> w = v \<and> st1 = st"
    by (rule translate_validation_step_Inr [OF Cons.prems(1) [unfolded kv]])
  from Cons.IH [OF step notin] ne show ?case
    by (simp add: map_of_dict_set)
qed

lemma translate_validation_kept:
  "translate_validation api d st acc = Inr (out, st') \<Longrightarrow> distinct (map fst d)
     \<Longrightarrow> k \<noteq> ''reason'' \<Longrightarrow> map_of d k = Some v \<Longrightarrow> map_of out k = Some v"
proof (induction d arbitrary: st acc)
  case Nil
  then show ?case by simp
next
  case (Cons kv d)
  obtain k' v' where kv: "kv = (k', v')" by (cases kv)
  obtain w st1 where step: "translate_validation api d st1 (dict_set acc k' w) = Inr (out, st')"
    and kept: "k' \<noteq> ''reason'' \<longrightarrow> w = v' \<and> st1 = st"
    by (rule translate_validation_step_Inr [OF Cons.prems(1) [unfolded kv]])
  show ?case
  proof (cases "k' = k")
    case True
    with Cons.prems kv have v: "v' = v" and notin: "k \<notin> fst ` set d" by auto
    from translate_validation_other [OF step notin] kept True Cons.prems(3) v
    show ?thesis by (simp add: map_of_dict_set)
  next
    case False
    with Cons.prems kv have "distinct (map fst d)" and "map_of d k = Some v" by auto
    from Cons.IH [OF step this(1) Cons.prems(3) this(2)] show ?thesis .
  qed
qed

lemma translate_items_kept:
  "translate_items api items st acc = Inr (out, st') \<Longrightarrow> distinct (map fst items)
     \<Longrightarrow> map_of items k = Some v \<Longrightarrow> passes_through k v \<Longrightarrow> map_of out k = Some v"
proof (induction items arbitrary: st acc)
  case Nil
  then show ?case by simp
next
  case (Cons kv items)
  obtain k' v' where kv: "kv = (k', v')" by (cases kv)
  obtain w st1 where step: "translate_items api items st1 (dict_set acc k' w) = Inr (out, st')"
    and kept: "passes_through k' v' \<longrightarrow> w = v' \<and> st1 = st"
    and val: "\<forall>d. k' = ''_validation'' \<and> v' = JDict d \<longrightarrow>
                  (\<exists>d'. w = JDict d' \<and> translate_validation api d st [] = Inr (d', st1))"
    by (rule translate_items_step_Inr [OF Cons.prems(1) [unfolded kv]])
  show ?case
  proof (cases "k' = k")
    case True
    with Cons.prems kv have v: "v' = v" and notin: "k \<notin> fst ` set items" by auto
    from translate_items_other [OF step notin] kept True Cons.prems(4) v
    show ?thesis by (simp add: map_of_dict_set)
  next
    case False
    with Cons.prems kv have "distinct (map fst items)" and "map_of items k = Some v" by auto
    from Cons.IH [OF step this(1) this(2) Cons.prems(4)] show ?thesis .
  qed
qed

lemma translate_items_validation:
  "translate_items api items st acc = Inr (out, st') \<Longrightarrow> distinct (map fst items)
     \<Longrightarrow> map_of items ''_validation'' = Some (JDict d)
     \<Longrightarrow> \<exists>d' st1 st2. map_of out ''_validation'' = Some (JDict d')
            \<and> translate_validation api d st1 [] = Inr (d', st2)"
proof (induction items arbitrary: st acc)
  case Nil
  then show ?case by simp
next
  case (Cons kv items)
  obtain k' v' where kv: "kv = (k', v')" by (cases kv)
  obtain w st1 where step: "translate_items api items st1 (dict_set acc k' w) = Inr (out, st')"
    and kept: "passes_through k' v' \<longrightarrow> w = v' \<and> st1 = st"
    and val: "\<forall>d. k' = ''_validation'' \<and> v' = JDict d \<longrightarrow>
                  (\<exists>d'. w = JDict d' \<and> translate_validation api d st [] = Inr (d', st1))"
    by (rule translate_items_step_Inr [OF Cons.prems(1) [unfolded kv]])
  show ?case
  proof (cases "k' = ''_validation''")
    case True
    with Cons.prems kv have v: "v' = JDict d" and notin: "''_validation'' \<notin> fst ` set items" by auto
    with val True obtain d' where d': "w = JDict d'" "translate_validation api d st [] = Inr (d', st1)"
      by blast
    from translate_items_other [OF step notin] True d' show ?thesis
      by (auto simp: map_of_dict_set)
  next
    case False
    with Cons.prems kv have "distinct (map fst items)" and "map_of items ''_validation'' = Some (JDict d)"
      by auto
    from Cons.IH [OF step this] show ?thesis .
  qed
qed

lemma translate_items_append:
  "translate_items api (pre @ rest) st acc =
     (case translate_items api pre st acc of
        Inl e \<Rightarrow> Inl e
      | Inr (acc', st') \<Rightarrow> translate_items api rest st' acc')"
proof (induction pre arbitrary: st acc)
  case Nil
  then show ?case by simp
next
  case (Cons kv pre)
  obtain k v where kv: "kv = (k, v)" by (cases kv)
  show ?case
    unfolding kv append_Cons
    by (cases v) (auto simp: Cons.IH split: sum.split prod.split)
qed

text \<open>The four failure classes of the request for a top-level string value.\<close>

lemma translate_text_outcomes:
  "(api (calls st) = RateLimitError msg \<and> \<not> is_quota_message msg \<longrightarrow>
      translate_text api s st = Inr (JStr s, st\<lparr>calls := calls st + 1, slept := slept st + 60\<rparr>))
   \<and> (api (calls st) = RateLimitError msg \<and> is_quota_message msg \<longrightarrow>
      translate_text api s st = Inl (QuotaExceededException (''Translation quota exceeded: '' @ msg)))
   \<and> (api (calls st) = AuthenticationError msg \<longrightarrow>
      translate_text api s st =
        Inl (QuotaExceededException (''Authentication error during translation: '' @ msg)))
   \<and> (api (calls st) = OtherError msg \<longrightarrow>
      translate_text api s st = Inr (JStr s, st\<lparr>calls := calls st + 1\<rparr>))"
  by (simp add: translate_text_def Let_def)

text \<open>
  C8, on the code. The handlers of the claim are those of the request for a top-level
  value (\<open>translate_text_outcomes\<close>). The request that translates the \<^verbatim>\<open>reason\<close> of
  \<^verbatim>\<open>_validation\<close> has its own handlers: an authentication error falls into
  \<^verbatim>\<open>except Exception\<close> and is swallowed, and a rate-limit error without quota keeps the
  text without any pause. Here the first two requests succeed and the third, the one
  for the reason, fails: the record is returned, with no signal and no time slept.
\<close>

theorem reason_translation_swallows_errors:
  "gpt_translate_text (fails_from_third (AuthenticationError ''Incorrect API key provided''))
       processed_sample ''English'' \<lparr>calls = 0, slept = 0\<rparr> =
     Inr ([(''Question'', JStr ''ok''), (''Answer'', JStr ''ok''), (''Question Number'', JNum 7),
           (''Grade'', JStr '' ''),
           (''_validation'', JDict [(''valid'', JBool True), (''reason'', JStr ''4 is right'')]),
           (''explanation_status'', JStr ''Answer is correct.'')],
          \<lparr>calls = 3, slept = 0\<rparr>)
   \<and> gpt_translate_text (fails_from_third (RateLimitError ''Rate limit reached for requests''))
       processed_sample ''English'' \<lparr>calls = 0, slept = 0\<rparr> =
     Inr ([(''Question'', JStr ''ok''), (''Answer'', JStr ''ok''), (''Question Number'', JNum 7),
           (''Grade'', JStr '' ''),
           (''_validation'', JDict [(''valid'', JBool True), (''reason'', JStr ''4 is right'')]),
           (''explanation_status'', JStr ''Answer is correct.'')],
          \<lparr>calls = 3, slept = 0\<rparr>)"
  by code_simp

text \<open>
  The dictionary under \<^verbatim>\<open>_validation\<close> is a top-level value that is not a string, and
  the translator does not pass it through unchanged: its \<^verbatim>\<open>reason\<close> is translated.
\<close>

theorem translation_changes_validation_counterexample:
  "(\<forall>s. JDict [(''valid'', JBool True), (''reason'', JStr ''4 is right'')] \<noteq> JStr s)
   \<and> map_of processed_sample ''_validation'' =
       Some (JDict [(''valid'', JBool True), (''reason'', JStr ''4 is right'')])
   \<and> translated_field (gpt_translate_text (\<lambda>n. Completion ''ok '') processed_sample ''English''
        \<lparr>calls = 0, slept = 0\<rparr>) ''_validation'' =
       Some (JDict [(''valid'', JBool True), (''reason'', JStr ''ok'')])"
proof -
  have "gpt_translate_text (\<lambda>n. Completion ''ok '') processed_sample ''English'' \<lparr>calls = 0, slept = 0\<rparr> =
     Inr ([(''Question'', JStr ''ok''), (''Answer'', JStr ''ok''), (''Question Number'', JNum 7),
           (''Grade'', JStr '' ''),
           (''_validation'', JDict [(''valid'', JBool True), (''reason'', JStr ''ok'')]),
           (''explanation_status'', JStr ''Answer is correct.'')],
          \<lparr>calls = 3, slept = 0\<rparr>)"
    by code_simp
  then show ?thesis
    by (simp add: translated_field_def processed_sample_def)
qed

lemma passes_throughI:
  assumes "\<forall>s. v = JStr s \<longrightarrow> py_strip s = []" and "\<not> (k = ''_validation'' \<and> (\<exists>d. v = JDict d))"
  shows "passes_through k v"
  using assms by (cases v) (auto simp: passes_through_def)

text \<open>
  C9 (as amended). Of a record with distinct keys, every record \<^verbatim>\<open>gpt_translate_text\<close>
  returns has the \<^verbatim>\<open>explanation_status\<close> of the input (none, if the input has none); if
  the input's \<^verbatim>\<open>_validation\<close> is a dictionary, the output's is a dictionary with the same
  \<^verbatim>\<open>valid\<close> and \<^verbatim>\<open>corrected\<close>; and every other top-level value that is not a string,
  or is a string that is empty or consists of whitespace only (of any of Unicode's
  whitespace characters, as \<^verbatim>\<open>strip\<close> sees them), is the input's value.
\<close>

theorem gpt_translate_text_frame:
  assumes "distinct (map fst text_record)"
    and "gpt_translate_text api text_record target_language st = Inr (out, st')"
  shows "map_of out ''explanation_status'' = map_of text_record ''explanation_status''
       \<and> (\<forall>d. map_of text_record ''_validation'' = Some (JDict d) \<and> distinct (map fst d) \<longrightarrow>
            (\<exists>d'. map_of out ''_validation'' = Some (JDict d')
                 \<and> map_of d' ''valid'' = map_of d ''valid''
                 \<and> map_of d' ''corrected'' = map_of d ''corrected''))
       \<and> (\<forall>k v. map_of text_record k = Some v \<and> (\<forall>s. v = JStr s \<longrightarrow> py_strip s = [])
                \<and> \<not> (k = ''_validation'' \<and> (\<exists>d. v = JDict d)) \<longrightarrow> map_of out k = Some v)"
proof (intro conjI allI impI)
  from assms(2) have run: "translate_items api text_record st [] = Inr (out, st')"
    by (simp add: gpt_translate_text_def)
  show "map_of out ''explanation_status'' = map_of text_record ''explanation_status''"
  proof (cases "map_of text_record ''explanation_status''")
    case None
    then have "''explanation_status'' \<notin> fst ` set text_record"
      by (simp add: map_of_eq_None_iff)
    from translate_items_other [OF run this] None show ?thesis by simp
  next
    case (Some v)
    have "passes_through ''explanation_status'' v"
      by (simp add: passes_through_def)
    from translate_items_kept [OF run assms(1) Some this] Some show ?thesis by simp
  qed
  {
    fix d
    assume "map_of text_record ''_validation'' = Some (JDict d) \<and> distinct (map fst d)"
    then have v: "map_of text_record ''_validation'' = Some (JDict d)" and dist: "distinct (map fst d)"
      by simp_all
    from translate_items_validation [OF run assms(1) v]
    obtain d' st1 st2 where out: "map_of out ''_validation'' = Some (JDict d')"
      and tv: "translate_validation api d st1 [] = Inr (d', st2)"
      by blast
    have same: "map_of d' k = map_of d k" if "k \<noteq> ''reason''" for k
    proof (cases "map_of d k")
      case None
      then have "k \<notin> fst ` set d" by (simp add: map_of_eq_None_iff)
      from translate_validation_other [OF tv this] None show ?thesis by simp
    next
      case (Some v)
      from translate_validation_kept [OF tv dist that Some] Some show ?thesis by simp
    qed
    from out same [of "''valid''"] same [of "''corrected''"]
    show "\<exists>d'. map_of out ''_validation'' = Some (JDict d')
                 \<and> map_of d' ''valid'' = map_of d ''valid''
                 \<and> map_of d' ''corrected'' = map_of d ''corrected''"
      by simp
  }
  {
    fix k v
    assume a: "map_of text_record k = Some v \<and> (\<forall>s. v = JStr s \<longrightarrow> py_strip s = [])
                \<and> \<not> (k = ''_validation'' \<and> (\<exists>d. v = JDict d))"
    then have "passes_through k v" by (intro passes_throughI) simp_all
    with a translate_items_kept [OF run assms(1)] show "map_of out k = Some v" by blast
  }
qed

theorem gpt_translate_text_frame_witness:
  "distinct (map fst blank_sample)
   \<and> distinct (map fst [(''valid'', JBool True), (''reason'', JStr ''4 is right'')])
   \<and> py_strip [CHR 0xC2, CHR 0xA0] = []
   \<and> py_strip [CHR 0x20, CHR 0xE2, CHR 0x80, CHR 0x83, CHR 0x0A] = []
   \<and> (\<exists>out st'. gpt_translate_text (\<lambda>n. Completion ''ok '') blank_sample ''English''
                    \<lparr>calls = 0, slept = 0\<rparr> = Inr (out, st')
         \<and> calls st' = 2
         \<and> map_of out ''explanation_status'' = Some (JStr ''Answer is correct.'')
         \<and> map_of out ''Question Number'' = Some (JNum 7)
         \<and> map_of out ''Grade'' = Some (JStr [CHR 0xC2, CHR 0xA0])
         \<and> map_of out ''Difficulty'' = Some (JStr [CHR 0x20, CHR 0xE2, CHR 0x80, CHR 0x83, CHR 0x0A])
         \<and> (\<exists>d'. map_of out ''_validation'' = Some (JDict d')
                \<and> map_of d' ''valid'' = Some (JBool True) \<and> map_of d' ''corrected'' = None))"
proof -
  have dist: "distinct (map fst blank_sample)"
    by (simp add: blank_sample_def)
  have nbsp: "py_strip [CHR 0xC2, CHR 0xA0] = []"
    by code_simp
  have spaces: "py_strip [CHR 0x20, CHR 0xE2, CHR 0x80, CHR 0x83, CHR 0x0A] = []"
    by code_simp
  have run: "gpt_translate_text (\<lambda>n. Completion ''ok '') blank_sample ''English'' \<lparr>calls = 0, slept = 0\<rparr> =
     Inr ([(''Question'', JStr ''ok''), (''Question Number'', JNum 7),
           (''Grade'', JStr [CHR 0xC2, CHR 0xA0]),
           (''Difficulty'', JStr [CHR 0x20, CHR 0xE2, CHR 0x80, CHR 0x83, CHR 0x0A]),
           (''_validation'', JDict [(''valid'', JBool True), (''reason'', JStr ''ok'')]),
           (''explanation_status'', JStr ''Answer is correct.'')],
          \<lparr>calls = 2, slept = 0\<rparr>)"
    by code_simp
  from gpt_translate_text_frame [OF dist run] dist run nbsp spaces show ?thesis
    by simp
qed

text \<open>
  C10. \<^verbatim>\<open>gpt_translate_text\<close> either raises the quota signal, and then returns nothing,
  or returns a record with every key of the input, in the input's order. If the request
  for some field raises after the fields before it have been translated, the call as a
  whole raises that exception: the translations made so far are in a local dictionary
  that nobody receives.
\<close>

theorem gpt_translate_text_all_or_nothing:
  assumes "distinct (map fst text_record)"
  shows "((\<exists>m. gpt_translate_text api text_record target_language st = Inl (QuotaExceededException m))
          \<or> (\<exists>out st'. gpt_translate_text api text_record target_language st = Inr (out, st')
                \<and> map fst out = map fst text_record))
       \<and> (\<forall>pre key val post partial st1 e.
            text_record = pre @ (key, val) # post
            \<and> translate_items api pre st [] = Inr (partial, st1)
            \<and> translate_items api [(key, val)] st1 partial = Inl e
            \<longrightarrow> gpt_translate_text api text_record target_language st = Inl e)"
proof (intro conjI allI impI)
  show "(\<exists>m. gpt_translate_text api text_record target_language st = Inl (QuotaExceededException m))
          \<or> (\<exists>out st'. gpt_translate_text api text_record target_language st = Inr (out, st')
                \<and> map fst out = map fst text_record)"
  proof (cases "translate_items api text_record st []")
    case (Inl e)
    with translate_items_error [OF Inl] show ?thesis
      by (auto simp: gpt_translate_text_def)
  next
    case (Inr p)
    obtain out st' where p: "p = (out, st')" by (cases p)
    from assms have "distinct (map fst ([] :: dict) @ map fst text_record)" by simp
    from translate_items_keys [OF Inr [unfolded p] this] Inr p show ?thesis
      by (simp add: gpt_translate_text_def)
  qed
next
  fix pre key val post partial st1 e
  assume a: "text_record = pre @ (key, val) # post
            \<and> translate_items api pre st [] = Inr (partial, st1)
            \<and> translate_items api [(key, val)] st1 partial = Inl e"
  then have split: "text_record = pre @ [(key, val)] @ post"
    and pre: "translate_items api pre st [] = Inr (partial, st1)"
    and field: "translate_items api [(key, val)] st1 partial = Inl e"
    by simp_all
  show "gpt_translate_text api text_record target_language st = Inl e"
    unfolding gpt_translate_text_def split translate_items_append pre
    by (simp add: field del: translate_items.simps)
qed

theorem gpt_translate_text_all_or_nothing_witness:
  "distinct (map fst processed_sample)
   \<and> gpt_translate_text (fails_from_third (RateLimitError ''You exceeded your current quota''))
        processed_sample ''English'' \<lparr>calls = 0, slept = 0\<rparr> =
       Inl (QuotaExceededException ''Translation quota exceeded: You exceeded your current quota'')"
proof -
  let ?api = "fails_from_third (RateLimitError ''You exceeded your current quota'')"
  let ?pre = "[(''Question'', JStr ''2+2?''), (''Answer'', JStr ''4''), (''Question Number'', JNum 7),
               (''Grade'', JStr '' '')]"
  let ?val = "JDict [(''valid'', JBool True), (''reason'', JStr ''4 is right'')]"
  let ?post = "[(''explanation_status'', JStr ''Answer is correct.'')]"
  let ?partial = "[(''Question'', JStr ''ok''), (''Answer'', JStr ''ok''), (''Question Number'', JNum 7),
               (''Grade'', JStr '' '')]"
  have dist: "distinct (map fst processed_sample)"
    by (simp add: processed_sample_def)
  have split: "processed_sample = ?pre @ (''_validation'', ?val) # ?post"
    by (simp add: processed_sample_def)
  have pre: "translate_items ?api ?pre \<lparr>calls = 0, slept = 0\<rparr> [] = Inr (?partial, \<lparr>calls = 2, slept = 0\<rparr>)"
    by code_simp
  have field: "translate_items ?api [(''_validation'', ?val)] \<lparr>calls = 2, slept = 0\<rparr> ?partial =
      Inl (QuotaExceededException ''Translation quota exceeded: You exceeded your current quota'')"
    by code_simp
  from gpt_translate_text_all_or_nothing [OF dist, of ?api "''English''" "\<lparr>calls = 0, slept = 0\<rparr>"]
  have "\<forall>pre key val post partial st1 e.
            processed_sample = pre @ (key, val) # post
            \<and> translate_items ?api pre \<lparr>calls = 0, slept = 0\<rparr> [] = Inr (partial, st1)
            \<and> translate_items ?api [(key, val)] st1 partial = Inl e
            \<longrightarrow> gpt_translate_text ?api processed_sample ''English'' \<lparr>calls = 0, slept = 0\<rparr> = Inl e"
    by (rule conjunct2)
  with split pre field dist show ?thesis by blast
qed

section \<open>The parallel batch runner\<close>

lemma submit_all_length: "length (submit_all records outcomes jl jl5) = length records"
  by (simp add: submit_all_def)

lemma submit_all_nth:
  "i < length records \<Longrightarrow>
     submit_all records outcomes jl jl5 ! i = validate_record (records ! i) (outcomes i) jl jl5"
  by (simp add: submit_all_def nth_enumerate_eq)

lemma as_completed_loop_all_returned_ex:
  assumes "\<forall>i\<in>set order. \<exists>r. futures ! i = Inr r"
  shows "\<exists>res. as_completed_loop futures order results = (res, None)
           \<and> length res = length results
           \<and> (\<forall>i<length results. i \<in> set order \<longrightarrow> map_option Inr (res ! i) = Some (futures ! i))
           \<and> (\<forall>i<length results. i \<notin> set order \<longrightarrow> res ! i = results ! i)"
  using assms
proof (induction order arbitrary: results)
  case Nil
  then show ?case by simp
next
  case (Cons idx rest)
  then obtain r where r: "futures ! idx = Inr r" by auto
  from Cons.prems have "\<forall>i\<in>set rest. \<exists>r. futures ! i = Inr r" by simp
  from Cons.IH [OF this, of "results[idx := Some r]"]
  obtain res where res: "as_completed_loop futures rest (results[idx := Some r]) = (res, None)"
    and len: "length res = length results"
    and inside: "\<forall>i<length results. i \<in> set rest \<longrightarrow> map_option Inr (res ! i) = Some (futures ! i)"
    and outside: "\<forall>i<length results. i \<notin> set rest \<longrightarrow> res ! i = (results[idx := Some r]) ! i"
    by auto
  have "as_completed_loop futures (idx # rest) results = (res, None)"
    using r res by simp
  moreover have "\<forall>i<length results. i \<in> set (idx # rest) \<longrightarrow> map_option Inr (res ! i) = Some (futures ! i)"
  proof (intro allI impI)
    fix i
    assume i: "i < length results" and mem: "i \<in> set (idx # rest)"
    show "map_option Inr (res ! i) = Some (futures ! i)"
    proof (cases "i \<in> set rest")
      case True
      with inside i show ?thesis by simp
    next
      case False
      with mem have "i = idx" by simp
      with outside i False r show ?thesis by simp
    qed
  qed
  moreover have "\<forall>i<length results. i \<notin> set (idx # rest) \<longrightarrow> res ! i = results ! i"
    using outside by auto
  ultimately show ?case using len by blast
qed

lemma as_completed_loop_all_returned:
  assumes "\<forall>i\<in>set order. \<exists>r. futures ! i = Inr r"
  obtains res where "as_completed_loop futures order results = (res, None)"
    and "length res = length results"
    and "\<forall>i<length results. i \<in> set order \<longrightarrow> map_option Inr (res ! i) = Some (futures ! i)"
    and "\<forall>i<length results. i \<notin> set order \<longrightarrow> res ! i = results ! i"
  using as_completed_loop_all_returned_ex [OF assms, of results]
  by (elim exE conjE) (rule that; assumption)

lemma as_completed_loop_append:
  "as_completed_loop futures (pre @ rest) results =
     (case as_completed_loop futures pre results of
        (res, None) \<Rightarrow> as_completed_loop futures rest res
      | (res, Some e) \<Rightarrow> (res, Some e))"
  by (induction pre arbitrary: results) (auto split: sum.split)

lemma validated_valid:
  \<open>validate_record scenario_record (Completion ''{"valid": true, "reason": "4 is right"}'')
     sample_json_loads sample_json5_loads =
   Inr [(''Question'', JStr ''2+2?''), (''Answer'', JStr ''5''), (''Question Type'', JStr ''short''),
        (''_validation'', JDict [(''valid'', JBool True), (''reason'', JStr ''4 is right'')]),
        (''explanation_status'', JStr ''Answer is correct.'')]\<close>
  unfolding validate_scenario [OF call_valid]
  by (simp add: apply_result_def py_get_def scenario_record_def)

lemma validated_corrected_4:
  \<open>validate_record scenario_record
     (Completion ''{"valid": false, "reason": "2+2=4", "corrected_answer": "4"}'')
     sample_json_loads sample_json5_loads =
   Inr [(''Question'', JStr ''2+2?''), (''Answer'', JStr ''4''), (''Question Type'', JStr ''short''),
        (''explanation_status'', JStr ''Explanation is already correct.''),
        (''_validation'', JDict [(''valid'', JBool False), (''reason'', JStr ''2+2=4''),
                                (''corrected'', JBool True)])]\<close>
  unfolding validate_scenario [OF call_corrected_4]
  by (simp add: apply_result_invalid py_get_def scenario_record_def)

lemma call_quota:
  "call_openai (JStr ''2+2?'') (JStr ''5'') (JStr ''short'')
     (RateLimitError ''You exceeded your current quota'') sample_json_loads sample_json5_loads =
   Inl (QuotaExceededException ''OpenAI API quota exceeded: You exceeded your current quota'')"
  by code_simp

lemma validated_quota:
  "validate_record scenario_record (RateLimitError ''You exceeded your current quota'')
     sample_json_loads sample_json5_loads =
   Inl (QuotaExceededException ''OpenAI API quota exceeded: You exceeded your current quota'')"
  by (simp add: validate_record_def scenario_call_arguments call_quota)

lemma quota_after_first_simps:
  "quota_after_first text 0 = Completion text"
  "quota_after_first text (Suc n) = RateLimitError ''You exceeded your current quota''"
  by (simp_all add: quota_after_first_def)

text \<open>
  C6, on the code. A batch of one record whose response is the text \<^verbatim>\<open>[]\<close>: no task
  raises the quota signal, and the runner returns no list. The \<^verbatim>\<open>AttributeError\<close> that
  \<^verbatim>\<open>validate_record\<close> raises on a response that is not an object passes through
  \<^verbatim>\<open>future.result()\<close> and leaves the runner.
\<close>

theorem process_records_parallel_raises_on_list:
  "completion_order (length [scenario_record]) [0]
   \<and> submit_all [scenario_record] (\<lambda>i. Completion ''[]'') sample_json_loads sample_json5_loads
        = [Inl AttributeError]
   \<and> process_records_parallel [scenario_record] (\<lambda>i. Completion ''[]'') [0]
        sample_json_loads sample_json5_loads = Inl AttributeError"
proof -
  have task: "validate_record scenario_record (Completion ''[]'') sample_json_loads sample_json5_loads
     = Inl AttributeError"
    unfolding validate_scenario [OF call_list] by (simp add: apply_result_def)
  then show ?thesis
    by (simp add: completion_order_def process_records_parallel_def submit_all_def)
qed

text \<open>
  Order preservation. When every validation task of the batch returns a record, then
  for every completion order \<^verbatim>\<open>process_records_parallel\<close> returns a list as long as the
  input whose element at each index is the record \<^verbatim>\<open>validate_record\<close> returned for the
  input record at that index.
\<close>

theorem process_records_parallel_order:
  assumes "completion_order (length records) order"
    and "\<forall>i<length records. \<exists>r. validate_record (records ! i) (outcomes i) json_loads json5_loads = Inr r"
  shows "\<exists>results. process_records_parallel records outcomes order json_loads json5_loads = Inr results
           \<and> length results = length records
           \<and> (\<forall>i<length records. map_option Inr (results ! i) =
                  Some (validate_record (records ! i) (outcomes i) json_loads json5_loads))"
proof -
  let ?futures = "submit_all records outcomes json_loads json5_loads"
  let ?init = "replicate (length records) (None :: dict option)"
  from assms(1) have order: "set order = {..<length records}"
    by (simp add: completion_order_def atLeast0LessThan)
  have "\<forall>i\<in>set order. \<exists>r. ?futures ! i = Inr r"
  proof
    fix i
    assume "i \<in> set order"
    with order have i: "i < length records" by simp
    with assms(2) show "\<exists>r. ?futures ! i = Inr r"
      by (simp only: submit_all_nth [OF i])
  qed
  then obtain res where res: "as_completed_loop ?futures order ?init = (res, None)"
    and len: "length res = length ?init"
    and inside: "\<forall>i<length ?init. i \<in> set order \<longrightarrow> map_option Inr (res ! i) = Some (?futures ! i)"
    and outside: "\<forall>i<length ?init. i \<notin> set order \<longrightarrow> res ! i = ?init ! i"
    by (rule as_completed_loop_all_returned)
  from res have run: "process_records_parallel records outcomes order json_loads json5_loads = Inr res"
    by (simp add: process_records_parallel_def)
  have slots: "\<forall>i<length records. map_option Inr (res ! i) =
          Some (validate_record (records ! i) (outcomes i) json_loads json5_loads)"
  proof (intro allI impI)
    fix i
    assume i: "i < length records"
    with order have "i \<in> set order" by simp
    with inside [rule_format, of i] i have "map_option Inr (res ! i) = Some (?futures ! i)"
      by (simp only: length_replicate)
    then show "map_option Inr (res ! i) =
          Some (validate_record (records ! i) (outcomes i) json_loads json5_loads)"
      by (simp only: submit_all_nth [OF i])
  qed
  from len have "length res = length records"
    by (simp only: length_replicate)
  with run slots show ?thesis by blast
qed

theorem process_records_parallel_order_witness:
  \<open>completion_order (length [scenario_record, scenario_record]) [1, 0]
   \<and> (\<exists>results. process_records_parallel [scenario_record, scenario_record]
          (\<lambda>i. Completion ''{"valid": true, "reason": "4 is right"}'') [1, 0]
          sample_json_loads sample_json5_loads = Inr results
        \<and> length results = length [scenario_record, scenario_record]
        \<and> map_option Inr (results ! 0) =
            Some (validate_record scenario_record (Completion ''{"valid": true, "reason": "4 is right"}'')
                    sample_json_loads sample_json5_loads))\<close>
proof -
  let ?records = "[scenario_record, scenario_record]"
  let ?outcomes = "\<lambda>i::nat. Completion ''{\"valid\": true, \"reason\": \"4 is right\"}''"
  have order: "completion_order (length ?records) [1, 0]"
    by (auto simp: completion_order_def)
  have task: "\<exists>r. validate_record scenario_record (?outcomes i) sample_json_loads sample_json5_loads = Inr r"
    for i :: nat
    unfolding validate_scenario [OF call_valid] by (simp add: apply_result_def py_get_def)
  have tasks: "\<forall>i<length ?records. \<exists>r. validate_record (?records ! i) (?outcomes i)
       sample_json_loads sample_json5_loads = Inr r"
    using task by (simp add: nth_Cons')
  from process_records_parallel_order [OF order tasks]
  obtain results
    where run: "process_records_parallel ?records ?outcomes [1, 0] sample_json_loads sample_json5_loads
                  = Inr results"
      and len: "length results = length ?records"
      and slots: "\<forall>i<length ?records. map_option Inr (results ! i) =
                    Some (validate_record (?records ! i) (?outcomes i) sample_json_loads sample_json5_loads)"
    by blast
  from slots [rule_format, of 0]
  have "map_option Inr (results ! 0) =
          Some (validate_record scenario_record (?outcomes 0) sample_json_loads sample_json5_loads)"
    by simp
  with order run len show ?thesis by blast
qed

text \<open>
  Two batches of two records in which the first task completes and the second raises
  the quota signal. The first task's result differs between the two (the answer is
  \<^verbatim>\<open>"5"\<close> in one and \<^verbatim>\<open>"4"\<close> in the other), and the caller receives the same thing
  in both: the exception with its message. The completed result cannot be read off it.
\<close>

theorem process_records_parallel_loses_results_counterexample:
  \<open>process_records_parallel [scenario_record, scenario_record]
       (quota_after_first ''{"valid": true, "reason": "4 is right"}'') [0, 1]
       sample_json_loads sample_json5_loads =
     Inl (QuotaExceededException ''OpenAI API quota exceeded: You exceeded your current quota'')
   \<and> process_records_parallel [scenario_record, scenario_record]
       (quota_after_first ''{"valid": false, "reason": "2+2=4", "corrected_answer": "4"}'') [0, 1]
       sample_json_loads sample_json5_loads =
     Inl (QuotaExceededException ''OpenAI API quota exceeded: You exceeded your current quota'')
   \<and> record_field (validate_record scenario_record
         (quota_after_first ''{"valid": true, "reason": "4 is right"}'' 0)
         sample_json_loads sample_json5_loads) ''Answer'' = Some (JStr ''5'')
   \<and> record_field (validate_record scenario_record
         (quota_after_first ''{"valid": false, "reason": "2+2=4", "corrected_answer": "4"}'' 0)
         sample_json_loads sample_json5_loads) ''Answer'' = Some (JStr ''4'')\<close>
  by (simp add: process_records_parallel_def submit_all_def quota_after_first_simps
      validated_valid validated_corrected_4 validated_quota record_field_def)

text \<open>
  C1 (as amended). When a task raises the quota signal and every task that completed
  before it returned a record, \<^verbatim>\<open>process_records_parallel\<close> raises that signal and returns
  nothing else. At that moment its local list \<^verbatim>\<open>results\<close> holds the records of the tasks
  completed before, each at its original index, and \<^verbatim>\<open>None\<close> at every other index; the
  list is local to the call and is gone once the exception leaves it.
\<close>

theorem process_records_parallel_quota:
  assumes "completion_order (length records) order"
    and "order = pre @ k # post"
    and "\<forall>i\<in>set pre. \<exists>r. validate_record (records ! i) (outcomes i) json_loads json5_loads = Inr r"
    and "validate_record (records ! k) (outcomes k) json_loads json5_loads = Inl (QuotaExceededException m)"
  shows "process_records_parallel records outcomes order json_loads json5_loads =
           Inl (QuotaExceededException m)
       \<and> (\<exists>results. as_completed_loop (submit_all records outcomes json_loads json5_loads) order
                       (replicate (length records) None) = (results, Some (QuotaExceededException m))
            \<and> length results = length records
            \<and> (\<forall>i<length records.
                  (i \<in> set pre \<longrightarrow> map_option Inr (results ! i) =
                      Some (validate_record (records ! i) (outcomes i) json_loads json5_loads))
                  \<and> (i \<notin> set pre \<longrightarrow> results ! i = None)))"
proof -
  let ?futures = "submit_all records outcomes json_loads json5_loads"
  let ?init = "replicate (length records) (None :: dict option)"
  from assms(1,2) have bound: "\<forall>i\<in>set pre. i < length records" and k: "k < length records"
    by (auto simp: completion_order_def)
  have "\<forall>i\<in>set pre. \<exists>r. ?futures ! i = Inr r"
  proof
    fix i
    assume mem: "i \<in> set pre"
    with bound have i: "i < length records" by simp
    from assms(3) mem show "\<exists>r. ?futures ! i = Inr r"
      by (simp only: submit_all_nth [OF i])
  qed
  then obtain res where res: "as_completed_loop ?futures pre ?init = (res, None)"
    and len: "length res = length ?init"
    and inside: "\<forall>i<length ?init. i \<in> set pre \<longrightarrow> map_option Inr (res ! i) = Some (?futures ! i)"
    and outside: "\<forall>i<length ?init. i \<notin> set pre \<longrightarrow> res ! i = ?init ! i"
    by (rule as_completed_loop_all_returned)
  from assms(4) have "?futures ! k = Inl (QuotaExceededException m)"
    by (simp only: submit_all_nth [OF k])
  then have loop: "as_completed_loop ?futures order ?init = (res, Some (QuotaExceededException m))"
    unfolding assms(2) as_completed_loop_append res by simp
  then have run: "process_records_parallel records outcomes order json_loads json5_loads =
           Inl (QuotaExceededException m)"
    by (simp add: process_records_parallel_def)
  have slots: "\<forall>i<length records.
                  (i \<in> set pre \<longrightarrow> map_option Inr (res ! i) =
                      Some (validate_record (records ! i) (outcomes i) json_loads json5_loads))
                  \<and> (i \<notin> set pre \<longrightarrow> res ! i = None)"
  proof (intro allI impI conjI)
    fix i
    assume i: "i < length records" and mem: "i \<in> set pre"
    with inside [rule_format, of i] have "map_option Inr (res ! i) = Some (?futures ! i)"
      by (simp only: length_replicate)
    then show "map_option Inr (res ! i) =
          Some (validate_record (records ! i) (outcomes i) json_loads json5_loads)"
      by (simp only: submit_all_nth [OF i])
  next
    fix i
    assume i: "i < length records" and mem: "i \<notin> set pre"
    with outside [rule_format, of i] have "res ! i = ?init ! i"
      by simp
    with i show "res ! i = None" by simp
  qed
  from len have "length res = length records"
    by (simp only: length_replicate)
  with run loop slots show ?thesis by blast
qed

theorem process_records_parallel_quota_witness:
  \<open>completion_order (length [scenario_record, scenario_record]) [0, 1]
   \<and> process_records_parallel [scenario_record, scenario_record]
       (quota_after_first ''{"valid": true, "reason": "4 is right"}'') [0, 1]
       sample_json_loads sample_json5_loads =
     Inl (QuotaExceededException ''OpenAI API quota exceeded: You exceeded your current quota'')
   \<and> (\<exists>results. as_completed_loop
          (submit_all [scenario_record, scenario_record]
             (quota_after_first ''{"valid": true, "reason": "4 is right"}'')
             sample_json_loads sample_json5_loads) [0, 1]
          (replicate (length [scenario_record, scenario_record]) None)
          = (results, Some (QuotaExceededException ''OpenAI API quota exceeded: You exceeded your current quota''))
        \<and> results ! 1 = None
        \<and> map_option Inr (results ! 0) =
            Some (validate_record scenario_record
                    (quota_after_first ''{"valid": true, "reason": "4 is right"}'' 0)
                    sample_json_loads sample_json5_loads))\<close>
proof -
  let ?records = "[scenario_record, scenario_record]"
  let ?outcomes = "quota_after_first ''{\"valid\": true, \"reason\": \"4 is right\"}''"
  let ?quota = "QuotaExceededException ''OpenAI API quota exceeded: You exceeded your current quota''"
  have order: "completion_order (length ?records) [0, 1]"
    by (auto simp: completion_order_def)
  have split: "[0, 1] = [0] @ (1::nat) # []"
    by simp
  have first: "\<forall>i\<in>set [0::nat]. \<exists>r. validate_record (?records ! i) (?outcomes i)
       sample_json_loads sample_json5_loads = Inr r"
    by (simp add: quota_after_first_simps validated_valid)
  have second: "validate_record (?records ! 1) (?outcomes 1) sample_json_loads sample_json5_loads = Inl ?quota"
    by (simp add: quota_after_first_simps validated_quota)
  note run = process_records_parallel_quota [OF order split first second]
  from run obtain results
    where loop: "as_completed_loop (submit_all ?records ?outcomes sample_json_loads sample_json5_loads)
                   [0, 1] (replicate (length ?records) None) = (results, Some ?quota)"
      and slots: "\<forall>i<length ?records.
                  (i \<in> set [0::nat] \<longrightarrow> map_option Inr (results ! i) =
                      Some (validate_record (?records ! i) (?outcomes i) sample_json_loads sample_json5_loads))
                  \<and> (i \<notin> set [0::nat] \<longrightarrow> results ! i = None)"
    by blast
  from slots [rule_format, of 1] have none: "results ! 1 = None"
    by simp
  from slots [rule_format, of 0] have some: "map_option Inr (results ! 0) =
      Some (validate_record scenario_record (?outcomes 0) sample_json_loads sample_json5_loads)"
    by simp
  from run have "process_records_parallel ?records ?outcomes [0, 1] sample_json_loads sample_json5_loads
      = Inl ?quota"
    by (rule conjunct1)
  with order loop none some show ?thesis by blast
qed

end
